theory Spec2Isabelle
  imports Main "HOL-Library.AList"
begin

section \<open>Go values used by the signer\<close>

text \<open>
  A Go \<open>string\<close> and a Go \<open>[]byte\<close> are both sequences of bytes; both are modelled as
  \<open>string\<close> (a list of 8-bit characters). An \<open>error\<close> value is modelled by its message.
  A call either returns a value, returns an error, or panics (a nil dereference).
\<close>

datatype error = Errorf string

datatype 'a result = Ok 'a | Err error | Panic

definition byte :: "char \<Rightarrow> nat" where
  "byte c = of_char c"

definition isUpperASCII :: "char \<Rightarrow> bool" where
  "isUpperASCII c = (65 \<le> byte c \<and> byte c \<le> 90)"

definition isLowerASCII :: "char \<Rightarrow> bool" where
  "isLowerASCII c = (97 \<le> byte c \<and> byte c \<le> 122)"

definition isDigitASCII :: "char \<Rightarrow> bool" where
  "isDigitASCII c = (48 \<le> byte c \<and> byte c \<le> 57)"

definition lowerByte :: "char \<Rightarrow> char" where
  "lowerByte c = (if isUpperASCII c then char_of (byte c + 32) else c)"

definition upperByte :: "char \<Rightarrow> char" where
  "upperByte c = (if isLowerASCII c then char_of (byte c - 32) else c)"

text \<open>
  The parts of the Go standard library that are not computed here are parameters of the
  model: the Unicode branch of \<open>strings.ToLower\<close>, \<open>sha256.Sum256\<close> and
  \<open>rsa.SignPKCS1v15\<close> with \<open>crypto.SHA256\<close> (a function of the key and the digest: the
  random source only blinds the computation).
\<close>

record 'k golib =
  unicodeToLower :: "string \<Rightarrow> string"
  Sum256 :: "string \<Rightarrow> string"
  SignPKCS1v15 :: "'k \<Rightarrow> string \<Rightarrow> error + string"

text \<open>
  \<open>strings.ToLower\<close>: a string of ASCII bytes only is lower-cased byte by byte; any
  other string goes through the Unicode mapping.
\<close>

definition ToLower :: "('k, 'x) golib_scheme \<Rightarrow> string \<Rightarrow> string" where
  "ToLower L s = (if list_all (\<lambda>c. byte c < 128) s then map lowerByte s else unicodeToLower L s)"

text \<open>\<open>strings.Join\<close>.\<close>

fun Join :: "string list \<Rightarrow> string \<Rightarrow> string" where
  "Join [] sep = []"
| "Join [x] sep = x"
| "Join (x # y # ys) sep = x @ sep @ Join (y # ys) sep"

subsection \<open>http.Header\<close>

text \<open>
  \<open>http.Header\<close> is a \<open>map[string][]string\<close>, here an association list read with
  \<open>map_of\<close> and written with \<open>AList.update\<close>. \<open>Get\<close> and \<open>Set\<close> address the map by the
  canonical form of the key (\<open>textproto.CanonicalMIMEHeaderKey\<close>): a key with a byte
  that is not a token character is left as it is, any other key gets an upper-case
  letter first and after every dash and lower-case letters elsewhere.
\<close>

type_synonym header = "(string \<times> string list) list"

definition validHeaderFieldByte :: "char \<Rightarrow> bool" where
  "validHeaderFieldByte c =
     (isUpperASCII c \<or> isLowerASCII c \<or> isDigitASCII c \<or>
      byte c \<in> set [33, 35, 36, 37, 38, 39, 42, 43, 45, 46, 94, 95, 96, 124, 126])"

fun canonicalCase :: "bool \<Rightarrow> string \<Rightarrow> string" where
  "canonicalCase upper [] = []"
| "canonicalCase upper (c # cs) =
     (let c' = (if upper \<and> isLowerASCII c then upperByte c
                else if \<not> upper \<and> isUpperASCII c then lowerByte c
                else c)
      in c' # canonicalCase (c' = CHR ''-'') cs)"

definition CanonicalMIMEHeaderKey :: "string \<Rightarrow> string" where
  "CanonicalMIMEHeaderKey s =
     (if list_all validHeaderFieldByte s then canonicalCase True s else s)"

definition Header_Get :: "header \<Rightarrow> string \<Rightarrow> string" where
  "Header_Get h key =
     (case map_of h (CanonicalMIMEHeaderKey key) of
        None \<Rightarrow> []
      | Some [] \<Rightarrow> []
      | Some (v # _) \<Rightarrow> v)"

definition Header_Set :: "header \<Rightarrow> string \<Rightarrow> string \<Rightarrow> header" where
  "Header_Set h key v = AList.update (CanonicalMIMEHeaderKey key) [v] h"

subsection \<open>url.URL and http.Request\<close>

text \<open>
  The fields of \<open>url.URL\<close> that the signer reads; \<open>uEscapedPath\<close> stands for the value
  of the method \<open>EscapedPath()\<close>.
\<close>

record url =
  uScheme :: string
  uOpaque :: string
  uHost :: string
  uEscapedPath :: string
  uForceQuery :: bool
  uRawQuery :: string

definition HasPrefix :: "string \<Rightarrow> string \<Rightarrow> bool" where
  "HasPrefix s p = (take (length p) s = p)"

definition RequestURI :: "url \<Rightarrow> string" where
  "RequestURI u =
     (let result = uOpaque u;
          result = (if result = [] then
                      (let p = uEscapedPath u in if p = [] then ''/'' else p)
                    else if HasPrefix result ''//'' then uScheme u @ '':'' @ result
                    else result)
      in if uForceQuery u \<or> uRawQuery u \<noteq> [] then result @ ''?'' @ uRawQuery u else result)"

text \<open>
  An \<open>io.ReadCloser\<close>: the sentinel \<open>http.NoBody\<close>, or a stream that still has the
  given bytes to deliver, after which it reports end of file or the given read error,
  and whose \<open>Close\<close> returns the given error, if any.
\<close>

datatype readCloser = NoBody | Stream string "error option" "error option"

text \<open>
  \<open>http.Request\<close>, with the fields the signer reads or writes. \<open>Body = None\<close> is the
  nil body. \<open>URL\<close> and \<open>Header\<close> are taken to be non-nil, as \<open>http.NewRequest\<close>
  makes them.
\<close>

record request =
  Method :: string
  URL :: url
  Header :: header
  Body :: "readCloser option"
  ContentLength :: int
  Host :: string

section \<open>The key provider and the signer\<close>

text \<open>
  A \<open>KeyProvider\<close> is given by what its three methods return (one credential snapshot);
  a \<open>PrivateRSAKey\<close> that returns no error returns a key. Times are nanoseconds.
  In the signer, \<open>KeyProvider = None\<close> is the nil interface value; the predicate
  \<open>ShouldHashBody\<close> is taken to be non-nil.
\<close>

record 'k keyProvider =
  PrivateRSAKey :: "error + 'k"
  KeyID :: "error + string"
  kpExpirationTime :: int

record 'k ociRequestSigner =
  KeyProvider :: "'k keyProvider option"
  GenericHeaders :: "string list"
  BodyHeaders :: "string list"
  ShouldHashBody :: "request \<Rightarrow> bool"

definition signerVersion :: string where
  "signerVersion = ''1''"

definition defaultGenericHeaders :: "string list" where
  "defaultGenericHeaders = [''date'', ''(request-target)'', ''host'']"

definition defaultDelegationHeaders :: "string list" where
  "defaultDelegationHeaders = [''date'', ''(request-target)'', ''host'', ''opc-obo-token'']"

definition defaultBodyHeaders :: "string list" where
  "defaultBodyHeaders = [''content-length'', ''content-type'', ''x-content-sha256'']"

definition defaultBodyHashPredicate :: "request \<Rightarrow> bool" where
  "defaultBodyHashPredicate r =
     (if Header_Get (Header r) ''X-Nosql-Hash-Body'' = ''true'' then True
      else Method r = ''POST'' \<or> Method r = ''PUT'' \<or> Method r = ''PATCH'')"

definition RequestSigner ::
  "'k keyProvider option \<Rightarrow> string list \<Rightarrow> string list \<Rightarrow> 'k ociRequestSigner" where
  "RequestSigner provider genericHeaders bodyHeaders =
     \<lparr>KeyProvider = provider, GenericHeaders = genericHeaders, BodyHeaders = bodyHeaders,
      ShouldHashBody = defaultBodyHashPredicate\<rparr>"

definition RequestSignerWithBodyHashingPredicate ::
  "'k keyProvider option \<Rightarrow> string list \<Rightarrow> string list \<Rightarrow> (request \<Rightarrow> bool) \<Rightarrow>
   'k ociRequestSigner" where
  "RequestSignerWithBodyHashingPredicate provider genericHeaders bodyHeaders shouldHashBody =
     \<lparr>KeyProvider = provider, GenericHeaders = genericHeaders, BodyHeaders = bodyHeaders,
      ShouldHashBody = shouldHashBody\<rparr>"

definition DefaultRequestSigner :: "'k keyProvider option \<Rightarrow> 'k ociRequestSigner" where
  "DefaultRequestSigner provider =
     RequestSigner provider defaultGenericHeaders defaultBodyHeaders"

definition DelegationRequestSigner :: "'k keyProvider option \<Rightarrow> 'k ociRequestSigner" where
  "DelegationRequestSigner provider =
     RequestSigner provider defaultDelegationHeaders defaultBodyHeaders"

definition RequestSignerExcludeBody :: "'k keyProvider option \<Rightarrow> 'k ociRequestSigner" where
  "RequestSignerExcludeBody provider =
     RequestSignerWithBodyHashingPredicate provider defaultGenericHeaders defaultBodyHeaders
       (\<lambda>r. Header_Get (Header r) ''X-Nosql-Hash-Body'' = ''true'')"

definition DelegationRequestSignerExcludeBody ::
  "'k keyProvider option \<Rightarrow> 'k ociRequestSigner" where
  "DelegationRequestSignerExcludeBody provider =
     RequestSignerWithBodyHashingPredicate provider defaultDelegationHeaders defaultBodyHeaders
       (\<lambda>r. Header_Get (Header r) ''X-Nosql-Hash-Body'' = ''true'')"

section \<open>Signing headers, expiration time and the canonical signing string\<close>

definition getSigningHeaders :: "('k, 'x) ociRequestSigner_scheme \<Rightarrow> request \<Rightarrow> string list" where
  "getSigningHeaders signer r =
     (let result = [] @ GenericHeaders signer
      in if ShouldHashBody signer r then result @ BodyHeaders signer else result)"

definition Second :: int where
  "Second = 1000000000"

text \<open>\<open>now\<close> is the reading of \<open>time.Now()\<close> at the call.\<close>

definition ExpirationTime :: "int \<Rightarrow> ('k, 'x) ociRequestSigner_scheme \<Rightarrow> int" where
  "ExpirationTime now signer =
     (case KeyProvider signer of
        None \<Rightarrow> now + (- Second)
      | Some provider \<Rightarrow> kpExpirationTime provider)"

definition getRequestTarget :: "('k, 'x) golib_scheme \<Rightarrow> request \<Rightarrow> string" where
  "getRequestTarget L request =
     (let lowercaseMethod = ToLower L (Method request)
      in lowercaseMethod @ '' '' @ RequestURI (URL request))"

text \<open>The body of the loop of \<open>getSigningString\<close>: the signing part of one header name.\<close>

definition signingPart :: "('k, 'x) golib_scheme \<Rightarrow> request \<Rightarrow> string \<Rightarrow> string" where
  "signingPart L request part0 =
     (let part = ToLower L part0;
          v = (if part = ''(request-target)'' then getRequestTarget L request
               else if part = ''host'' then
                 (let v = uHost (URL request) in if length v = 0 then Host request else v)
               else Header_Get (Header request) part)
      in part @ '': '' @ v)"

definition getSigningString ::
  "('k, 'x) golib_scheme \<Rightarrow> ('k, 'y) ociRequestSigner_scheme \<Rightarrow> request \<Rightarrow> string" where
  "getSigningString L signer request =
     (let signingHeaders = getSigningHeaders signer request;
          signingParts = map (signingPart L request) signingHeaders
      in Join signingParts [CHR 0x0A])"

section \<open>The body hash\<close>

text \<open>\<open>base64.StdEncoding.EncodeToString\<close>: the standard alphabet, padded with \<open>=\<close>.\<close>

definition encodeStd :: string where
  "encodeStd = ''ABCDEFGHIJKLMNOPQRSTUVWXYZabcdefghijklmnopqrstuvwxyz0123456789+/''"

fun EncodeToString :: "string \<Rightarrow> string" where
  "EncodeToString (a # b # c # rest) =
     (let n = byte a * 65536 + byte b * 256 + byte c
      in encodeStd ! (n div 262144) # encodeStd ! (n div 4096 mod 64) #
         encodeStd ! (n div 64 mod 64) # encodeStd ! (n mod 64) # EncodeToString rest)"
| "EncodeToString [a, b] =
     (let n = byte a * 65536 + byte b * 256
      in [encodeStd ! (n div 262144), encodeStd ! (n div 4096 mod 64),
          encodeStd ! (n div 64 mod 64), CHR ''=''])"
| "EncodeToString [a] =
     (let n = byte a * 65536
      in [encodeStd ! (n div 262144), encodeStd ! (n div 4096 mod 64), CHR ''='', CHR ''=''])"
| "EncodeToString [] = []"

text \<open>\<open>fmt.Sprintf("%v", n)\<close> for an \<open>int64\<close>: the decimal numeral.\<close>

fun natDecimal :: "nat \<Rightarrow> string" where
  "natDecimal n =
     (if n < 10 then [char_of (48 + n)] else natDecimal (n div 10) @ [char_of (48 + n mod 10)])"

declare natDecimal.simps [simp del]

definition FormatInt :: "int \<Rightarrow> string" where
  "FormatInt i = (if i < 0 then ''-'' @ natDecimal (nat (- i)) else natDecimal (nat i))"

fun ErrorMsg :: "error \<Rightarrow> string" where
  "ErrorMsg (Errorf s) = s"

text \<open>
  The reader operations \<open>drainBody\<close> uses. \<open>ReadFrom\<close> is \<open>bytes.Buffer.ReadFrom\<close> on
  an empty buffer: the bytes read, the error if the reader reported one, and the reader
  afterwards, which has nothing left to deliver. \<open>NopCloser\<close> over a buffer and over a
  \<open>bytes.Reader\<close> of the buffer's bytes are both fresh readers of those bytes that
  neither fail nor fail to close.
\<close>

fun ReadFrom :: "readCloser \<Rightarrow> string \<times> error option \<times> readCloser" where
  "ReadFrom NoBody = ([], None, NoBody)"
| "ReadFrom (Stream buf readErr closeErr) = (buf, readErr, Stream [] readErr closeErr)"

fun Close :: "readCloser \<Rightarrow> error option" where
  "Close NoBody = None"
| "Close (Stream buf readErr closeErr) = closeErr"

definition NopCloser :: "string \<Rightarrow> readCloser" where
  "NopCloser buf = Stream buf None None"

text \<open>
  \<open>drainBody\<close> returns either the error with the reader it was given (\<open>return nil, b, err\<close>),
  or two readers over the buffered bytes.
\<close>

definition drainBody :: "readCloser \<Rightarrow> error \<times> readCloser + readCloser \<times> readCloser" where
  "drainBody b =
     (if b = NoBody then Inr (NoBody, NoBody)
      else
        (case ReadFrom b of
           (buf, Some err, b) \<Rightarrow> Inl (err, b)
         | (buf, None, b) \<Rightarrow>
             (case Close b of
                Some err \<Rightarrow> Inl (err, b)
              | None \<Rightarrow> Inr (NopCloser buf, NopCloser buf))))"

text \<open>\<open>io.ReadAll\<close>.\<close>

fun ReadAll :: "readCloser \<Rightarrow> error + string" where
  "ReadAll NoBody = Inr []"
| "ReadAll (Stream buf None closeErr) = Inr buf"
| "ReadAll (Stream buf (Some err) closeErr) = Inl err"

definition hashAndEncode :: "('k, 'x) golib_scheme \<Rightarrow> string \<Rightarrow> string" where
  "hashAndEncode L data = (let hashedContent = Sum256 L data in EncodeToString hashedContent)"

definition GetBodyHash :: "('k, 'x) golib_scheme \<Rightarrow> request \<Rightarrow> (error + string) \<times> request" where
  "GetBodyHash L request =
     (case Body request of
        None \<Rightarrow>
          (let request = request\<lparr>ContentLength := 0\<rparr>;
               request = request\<lparr>Header :=
                 Header_Set (Header request) ''Content-Length'' (FormatInt (ContentLength request))\<rparr>
           in (Inr (hashAndEncode L []), request))
      | Some body \<Rightarrow>
          (case drainBody body of
             Inl (err, b) \<Rightarrow>
               (Inl (Errorf (''can not read body of request while calculating body hash: '' @
                       ErrorMsg err)),
                request\<lparr>Body := Some b\<rparr>)
           | Inr (bReader, b) \<Rightarrow>
               (let request = request\<lparr>Body := Some b\<rparr> in
                case ReadAll bReader of
                  Inl err \<Rightarrow>
                    (Inl (Errorf (''can not read body of request while calculating body hash: '' @
                            ErrorMsg err)),
                     request)
                | Inr data \<Rightarrow>
                    (let request = request\<lparr>ContentLength := int (length data)\<rparr>;
                         request = request\<lparr>Header :=
                           Header_Set (Header request) ''Content-Length''
                             (FormatInt (ContentLength request))\<rparr>
                     in (Inr (hashAndEncode L data), request)))))"

definition calculateHashOfBody ::
  "('k, 'x) golib_scheme \<Rightarrow> request \<Rightarrow> error option \<times> request" where
  "calculateHashOfBody L request =
     (case GetBodyHash L request of
        (Inl err, request) \<Rightarrow> (Some err, request)
      | (Inr hash, request) \<Rightarrow>
          (None, request\<lparr>Header := Header_Set (Header request) ''X-Content-SHA256'' hash\<rparr>))"

section \<open>Signing\<close>

text \<open>
  Calling a method of the nil \<open>KeyProvider\<close> interface panics. Otherwise the error of
  \<open>PrivateRSAKey\<close> is returned as it is, and the error of the signing primitive is
  wrapped.
\<close>

definition computeSignature ::
  "('k, 'x) golib_scheme \<Rightarrow> ('k, 'y) ociRequestSigner_scheme \<Rightarrow> request \<Rightarrow> string result" where
  "computeSignature L signer request =
     (let signingString = getSigningString L signer request;
          hashed = Sum256 L signingString
      in case KeyProvider signer of
           None \<Rightarrow> Panic
         | Some provider \<Rightarrow>
             (case PrivateRSAKey provider of
                Inl err \<Rightarrow> Err err
              | Inr privateKey \<Rightarrow>
                  (case SignPKCS1v15 L privateKey hashed of
                     Inl e \<Rightarrow>
                       Err (Errorf (''can not compute signature while signing the request '' @
                              ErrorMsg e @ '': ''))
                   | Inr unencodedSig \<Rightarrow> Ok (EncodeToString unencodedSig))))"

text \<open>The value of the \<open>Authorization\<close> header, as \<open>fmt.Sprintf\<close> composes it.\<close>

definition authValue :: "string \<Rightarrow> string \<Rightarrow> string \<Rightarrow> string \<Rightarrow> string" where
  "authValue version signingHeaders keyID signature =
     ''Signature version='' @ [CHR 0x22] @ version @ [CHR 0x22] @
     '',headers='' @ [CHR 0x22] @ signingHeaders @ [CHR 0x22] @
     '',keyId='' @ [CHR 0x22] @ keyID @ [CHR 0x22] @
     '',algorithm='' @ [CHR 0x22] @ ''rsa-sha256'' @ [CHR 0x22] @
     '',signature='' @ [CHR 0x22] @ signature @ [CHR 0x22]"

text \<open>\<open>Sign\<close> returns its outcome and the request as it has mutated it.\<close>

definition Sign ::
  "('k, 'x) golib_scheme \<Rightarrow> ('k, 'y) ociRequestSigner_scheme \<Rightarrow> request \<Rightarrow> unit result \<times> request" where
  "Sign L signer request =
     (case (if ShouldHashBody signer request then calculateHashOfBody L request
            else (None, request)) of
        (Some err, request) \<Rightarrow> (Err err, request)
      | (None, request) \<Rightarrow>
          (case computeSignature L signer request of
             Panic \<Rightarrow> (Panic, request)
           | Err err \<Rightarrow> (Err err, request)
           | Ok signature \<Rightarrow>
               (let signingHeaders = Join (getSigningHeaders signer request) '' '' in
                case KeyProvider signer of
                  None \<Rightarrow> (Panic, request)
                | Some provider \<Rightarrow>
                    (case KeyID provider of
                       Inl err \<Rightarrow> (Err err, request)
                     | Inr keyID \<Rightarrow>
                         (Ok (),
                          request\<lparr>Header := Header_Set (Header request) ''Authorization''
                            (authValue signerVersion signingHeaders keyID signature)\<rparr>)))))"

section \<open>The library in one run\<close>

text \<open>
  \<open>computeSignature\<close> calls \<open>rsa.SignPKCS1v15(rand.Reader, privateKey, crypto.SHA256, hashed)\<close>.
  The library a run of \<open>Sign\<close> sees is therefore made of the two pure functions and of
  the signing primitive applied to what \<open>rand.Reader\<close> delivers in that run; two runs
  have two random sources.
\<close>

definition libraryWithRandom ::
  "(string \<Rightarrow> string) \<Rightarrow> (string \<Rightarrow> string) \<Rightarrow> (string \<Rightarrow> 'k \<Rightarrow> string \<Rightarrow> error + string) \<Rightarrow>
   string \<Rightarrow> 'k golib" where
  "libraryWithRandom lowerFn sumFn signFn random =
     \<lparr>unicodeToLower = lowerFn, Sum256 = sumFn, SignPKCS1v15 = signFn random\<rparr>"

section \<open>Observations used to state the properties\<close>

text \<open>
  The bytes a body still holds, whether it can be read to the end and closed without an
  error, and what a reader of the request's body receives (a nil body delivers nothing).
  \<open>decimalValue\<close> reads a decimal numeral back.
\<close>

definition bodyBytes :: "request \<Rightarrow> string" where
  "bodyBytes r = (case Body r of None \<Rightarrow> [] | Some NoBody \<Rightarrow> [] | Some (Stream buf _ _) \<Rightarrow> buf)"

definition bodyReadable :: "request \<Rightarrow> bool" where
  "bodyReadable r =
     (case Body r of None \<Rightarrow> True | Some NoBody \<Rightarrow> True
      | Some (Stream _ readErr closeErr) \<Rightarrow> readErr = None \<and> closeErr = None)"

definition readBody :: "request \<Rightarrow> error + string" where
  "readBody r = (case Body r of None \<Rightarrow> Inr [] | Some b \<Rightarrow> ReadAll b)"

definition decimalValue :: "string \<Rightarrow> nat" where
  "decimalValue s = foldl (\<lambda>a c. 10 * a + (byte c - 48)) 0 s"

text \<open>
  The request as the first step of \<open>Sign\<close> (the body hash, when the predicate holds)
  leaves it, and the error of that step, if any.
\<close>

definition afterBodyHash ::
  "('k, 'x) golib_scheme \<Rightarrow> ('k, 'y) ociRequestSigner_scheme \<Rightarrow> request \<Rightarrow> request" where
  "afterBodyHash L signer r =
     (if ShouldHashBody signer r then snd (calculateHashOfBody L r) else r)"

definition bodyHashError ::
  "('k, 'x) golib_scheme \<Rightarrow> ('k, 'y) ociRequestSigner_scheme \<Rightarrow> request \<Rightarrow> error option" where
  "bodyHashError L signer r =
     (if ShouldHashBody signer r then fst (calculateHashOfBody L r) else None)"

section \<open>Concrete inputs\<close>

text \<open>
  An instance of the library parameters for evaluating the model on examples: simple
  stand-ins for the digest and for the signing primitive, which rejects the key \<open>0\<close>.
\<close>

definition exampleLib :: "nat golib" where
  "exampleLib =
     \<lparr>unicodeToLower = (\<lambda>s. s), Sum256 = rev,
      SignPKCS1v15 = (\<lambda>k digest. if k = 0 then Inl (Errorf ''invalid key'') else Inr (''sig:'' @ digest))\<rparr>"

definition exampleURL :: url where
  "exampleURL =
     \<lparr>uScheme = ''https'', uOpaque = [], uHost = ''example.com'', uEscapedPath = ''/v1/x'',
      uForceQuery = False, uRawQuery = []\<rparr>"

definition exampleRequest :: request where
  "exampleRequest =
     \<lparr>Method = ''GET'', URL = exampleURL, Header = [(''Date'', [''Mon, 02 Nov 2026 10:00:00 GMT''])],
      Body = None, ContentLength = 0, Host = []\<rparr>"

definition exampleProvider :: "nat keyProvider" where
  "exampleProvider =
     \<lparr>PrivateRSAKey = Inr 7, KeyID = Inr ''tenancy/user/fingerprint'', kpExpirationTime = 42\<rparr>"

definition exampleBodyRequest :: request where
  "exampleBodyRequest = exampleRequest\<lparr>Method := ''POST'', Body := Some (Stream ''hello'' None None)\<rparr>"

definition mixedCaseSigner :: "nat ociRequestSigner" where
  "mixedCaseSigner =
     RequestSigner (Some exampleProvider) [''Date'', ''(Request-Target)'', ''Host'', ''X-Missing'']
       defaultBodyHeaders"

definition exampleUnreadableRequest :: request where
  "exampleUnreadableRequest =
     exampleRequest\<lparr>Method := ''PUT'',
       Body := Some (Stream ''hel'' (Some (Errorf ''unexpected EOF'')) None)\<rparr>"

definition exampleLowerKeyRequest :: request where
  "exampleLowerKeyRequest =
     exampleRequest\<lparr>Header := [(''date'', [''Mon, 02 Nov 2026 10:00:00 GMT''])]\<rparr>"



definition randomPrimitive :: "string \<Rightarrow> nat \<Rightarrow> string \<Rightarrow> error + string" where
  "randomPrimitive random k digest = Inr random"

section \<open>The reference construction of the canonical signing string\<close>

text \<open>
  The construction as the specification words it, to be compared with
  \<open>getSigningString\<close>: the signing header list is the generic headers followed by the
  body headers iff the body-hash predicate holds; each name is lower-cased and gives the
  line \<open>name: value\<close>; the lines are separated by one newline, with none after the last.
  \<open>(request-target)\<close> is the lower-cased method, a space and the path and query;
  \<open>host\<close> is the URL host, or the \<open>Host\<close> field when the URL host is empty; any other
  name is looked up in the headers ignoring case, a missing header giving the empty
  value.
\<close>

definition equalFoldASCII :: "string \<Rightarrow> string \<Rightarrow> bool" where
  "equalFoldASCII a b = (map lowerByte a = map lowerByte b)"

fun lookupIgnoringCase :: "header \<Rightarrow> string \<Rightarrow> string" where
  "lookupIgnoringCase [] name = []"
| "lookupIgnoringCase ((k, vs) # h) name =
     (if equalFoldASCII k name then (case vs of [] \<Rightarrow> [] | v # _ \<Rightarrow> v)
      else lookupIgnoringCase h name)"

definition spec_signingHeaderList ::
  "('k, 'y) ociRequestSigner_scheme \<Rightarrow> request \<Rightarrow> string list" where
  "spec_signingHeaderList signer r =
     GenericHeaders signer @ (if ShouldHashBody signer r then BodyHeaders signer else [])"

definition spec_headerValue :: "('k, 'x) golib_scheme \<Rightarrow> request \<Rightarrow> string \<Rightarrow> string" where
  "spec_headerValue L r name =
     (if name = ''(request-target)'' then ToLower L (Method r) @ '' '' @ RequestURI (URL r)
      else if name = ''host'' then (if uHost (URL r) = [] then Host r else uHost (URL r))
      else lookupIgnoringCase (Header r) name)"

definition spec_signingString ::
  "('k, 'x) golib_scheme \<Rightarrow> ('k, 'y) ociRequestSigner_scheme \<Rightarrow> request \<Rightarrow> string" where
  "spec_signingString L signer r =
     butlast (concat (map (\<lambda>name. ToLower L name @ '': '' @ spec_headerValue L r (ToLower L name) @ [CHR 0x0A])
       (spec_signingHeaderList signer r)))"

text \<open>
  Every key of the header map is a header-name token in canonical form. \<open>Set\<close> with a
  token name keeps this, and \<open>Get\<close> is case-insensitive only where it holds; a map
  written directly, or \<open>Set\<close> with a name that is not a token, can break it.
\<close>

definition canonicalKeys :: "header \<Rightarrow> bool" where
  "canonicalKeys h =
     list_all (\<lambda>(k, vs). list_all validHeaderFieldByte k \<and> CanonicalMIMEHeaderKey k = k) h"

section \<open>The URL-based certificate retriever\<close>

text \<open>
  Modelled from the spec: the transport client of the URL-based retriever, "perform GET,
  return status + body, or a transport error" (the retriever's source is not among the
  sources modelled above; only its test is).
\<close>

datatype response = TransportError error | Response nat string

text \<open>
  Modelled from the spec: what a \<open>Refresh\<close> of the URL-based retriever finds outside: the
  answers of the transport client at that time, and the parsers of PEM certificates and
  of PEM private keys (with the optional passphrase); \<open>None\<close> is a parse error.
\<close>

record ('c, 'k) refreshEnv =
  httpGet :: "string \<Rightarrow> response"
  parseCertificate :: "string \<Rightarrow> 'c option"
  parsePrivateKey :: "string \<Rightarrow> string option \<Rightarrow> 'k option"

text \<open>
  Modelled from the spec: the URL-based retriever is constructed with a certificate URL,
  an optional private-key URL and an optional passphrase.
\<close>

record retrieverConfig =
  certificateURL :: string
  privateKeyURL :: "string option"
  passphrase :: "string option"

text \<open>
  Modelled from the spec: the Credential Material, one value replaced as a whole; the key
  fields are absent when no key source was configured.
\<close>

record ('c, 'k) credentialMaterial =
  certificatePemRaw :: string
  certificate :: 'c
  privateKeyPemRaw :: "string option"
  privateKey :: "'k option"

text \<open>
  Modelled from the spec: the stored state of a retriever, unset before the first
  successful refresh.
\<close>

type_synonym ('c, 'k) retriever = "('c, 'k) credentialMaterial option"

text \<open>
  Modelled from the spec: a fetch fails on a transport error and on a status that is not
  2xx.
\<close>

definition fetch :: "('c, 'k) refreshEnv \<Rightarrow> string \<Rightarrow> error + string" where
  "fetch env u =
     (case httpGet env u of
        TransportError e \<Rightarrow> Inl e
      | Response status body \<Rightarrow>
          if 200 \<le> status \<and> status < 300 then Inr body
          else Inl (Errorf ''unexpected status''))"

text \<open>
  Modelled from the spec: \<open>Refresh\<close> of the URL-based retriever (section 4.1, steps 1 to
  4): fetch and parse the certificate; if a private-key URL is configured fetch and parse
  the key; any failure aborts with an error and no mutation; only when everything
  succeeded is the stored material replaced as one unit.
\<close>

definition Refresh ::
  "('c, 'k) refreshEnv \<Rightarrow> retrieverConfig \<Rightarrow> ('c, 'k) retriever \<Rightarrow>
   error option \<times> ('c, 'k) retriever" where
  "Refresh env cfg st =
     (case fetch env (certificateURL cfg) of
        Inl e \<Rightarrow> (Some e, st)
      | Inr certPem \<Rightarrow>
          (case parseCertificate env certPem of
             None \<Rightarrow> (Some (Errorf ''invalid certificate''), st)
           | Some cert \<Rightarrow>
               (case privateKeyURL cfg of
                  None \<Rightarrow>
                    (None,
                     Some \<lparr>certificatePemRaw = certPem, certificate = cert,
                           privateKeyPemRaw = None, privateKey = None\<rparr>)
                | Some keyURL \<Rightarrow>
                    (case fetch env keyURL of
                       Inl e \<Rightarrow> (Some e, st)
                     | Inr keyPem \<Rightarrow>
                         (case parsePrivateKey env keyPem (passphrase cfg) of
                            None \<Rightarrow> (Some (Errorf ''invalid private key''), st)
                          | Some key \<Rightarrow>
                              (None,
                               Some \<lparr>certificatePemRaw = certPem, certificate = cert,
                                     privateKeyPemRaw = Some keyPem,
                                     privateKey = Some key\<rparr>))))))"

text \<open>Modelled from the spec: the four accessors, absent while nothing is stored.\<close>

definition CertificatePemRaw :: "('c, 'k) retriever \<Rightarrow> string option" where
  "CertificatePemRaw st = map_option certificatePemRaw st"

definition Certificate :: "('c, 'k) retriever \<Rightarrow> 'c option" where
  "Certificate st = map_option certificate st"

definition PrivateKeyPemRaw :: "('c, 'k) retriever \<Rightarrow> string option" where
  "PrivateKeyPemRaw st = (case st of None \<Rightarrow> None | Some m \<Rightarrow> privateKeyPemRaw m)"

definition PrivateKey :: "('c, 'k) retriever \<Rightarrow> 'k option" where
  "PrivateKey st = (case st of None \<Rightarrow> None | Some m \<Rightarrow> privateKey m)"

text \<open>
  A sequence of refresh attempts, each against the outside world of its time; the result
  is the stored state and the outcome of every attempt.
\<close>

fun refreshAll ::
  "('c, 'k) refreshEnv list \<Rightarrow> retrieverConfig \<Rightarrow> ('c, 'k) retriever \<Rightarrow>
   ('c, 'k) retriever" where
  "refreshAll [] cfg st = st"
| "refreshAll (env # envs) cfg st = refreshAll envs cfg (snd (Refresh env cfg st))"

text \<open>
  The scenario of the repository's test of failure atomicity: both servers answer, then
  the certificate server answers with another certificate while the key server answers
  500.
\<close>

definition exampleParsers :: "(string, string) refreshEnv" where
  "exampleParsers =
     \<lparr>httpGet = (\<lambda>u. TransportError (Errorf ''no server'')),
      parseCertificate = (\<lambda>pem. if HasPrefix pem ''CERT'' then Some (drop 4 pem) else None),
      parsePrivateKey = (\<lambda>pem pass. if HasPrefix pem ''KEY'' then Some (drop 3 pem) else None)\<rparr>"

definition serversUp :: "(string, string) refreshEnv" where
  "serversUp = exampleParsers\<lparr>httpGet :=
     (\<lambda>u. if u = ''http://cert'' then Response 200 ''CERT-A''
          else if u = ''http://key'' then Response 200 ''KEY-A''
          else Response 404 ''not found'')\<rparr>"

definition keyServerDown :: "(string, string) refreshEnv" where
  "keyServerDown = exampleParsers\<lparr>httpGet :=
     (\<lambda>u. if u = ''http://cert'' then Response 200 ''CERT-B''
          else if u = ''http://key'' then Response 500 ''500 internal server error''
          else Response 404 ''not found'')\<rparr>"

definition exampleConfig :: retrieverConfig where
  "exampleConfig =
     \<lparr>certificateURL = ''http://cert'', privateKeyURL = Some ''http://key'', passphrase = None\<rparr>"

definition materialA :: "(string, string) credentialMaterial" where
  "materialA =
     \<lparr>certificatePemRaw = ''CERT-A'', certificate = ''-A'',
      privateKeyPemRaw = Some ''KEY-A'', privateKey = Some ''-A''\<rparr>"

section \<open>Properties of the library model\<close>

lemma canonical_marker: "CanonicalMIMEHeaderKey ''X-Nosql-Hash-Body'' = ''X-Nosql-Hash-Body''"
  by code_simp

lemma canonical_Content_Length: "CanonicalMIMEHeaderKey ''Content-Length'' = ''Content-Length''"
  by code_simp

lemma canonical_X_Content_SHA256: "CanonicalMIMEHeaderKey ''X-Content-SHA256'' = ''X-Content-Sha256''"
  by code_simp

lemma canonical_X_Content_Sha256: "CanonicalMIMEHeaderKey ''X-Content-Sha256'' = ''X-Content-Sha256''"
  by code_simp

lemma canonical_Authorization: "CanonicalMIMEHeaderKey ''Authorization'' = ''Authorization''"
  by code_simp

lemma valid_Content_Length: "list_all validHeaderFieldByte ''Content-Length''"
  by (simp add: validHeaderFieldByte_def isUpperASCII_def isLowerASCII_def isDigitASCII_def byte_def)

lemma valid_X_Content_Sha256: "list_all validHeaderFieldByte ''X-Content-Sha256''"
  by (simp add: validHeaderFieldByte_def isUpperASCII_def isLowerASCII_def isDigitASCII_def byte_def)

lemma Header_Get_Set:
  "Header_Get (Header_Set h k v) k' =
     (if CanonicalMIMEHeaderKey k' = CanonicalMIMEHeaderKey k then v else Header_Get h k')"
  by (simp add: Header_Get_def Header_Set_def update_conv')

lemma decimalValue_natDecimal: "decimalValue (natDecimal n) = n"
proof (induction n rule: natDecimal.induct)
  case (1 n)
  show ?case
  proof (cases "n < 10")
    case True
    then show ?thesis by (subst natDecimal.simps) (simp add: decimalValue_def byte_def)
  next
    case False
    have "n mod 10 < 10" by simp
    then have d: "(48 + n mod 10) mod 256 = 48 + n mod 10" by simp
    from False 1 show ?thesis
      by (subst natDecimal.simps) (simp add: decimalValue_def byte_def d)
  qed
qed

lemma EncodeToString_vectors:
  "EncodeToString [] = []"
  "EncodeToString ''f'' = ''Zg==''"
  "EncodeToString ''fo'' = ''Zm8=''"
  "EncodeToString ''foo'' = ''Zm9v''"
  "EncodeToString ''foob'' = ''Zm9vYg==''"
  "EncodeToString ''fooba'' = ''Zm9vYmE=''"
  "EncodeToString ''foobar'' = ''Zm9vYmFy''"
  by (simp_all add: byte_def encodeStd_def Let_def)

lemma byte_lowerByte: "isUpperASCII c \<Longrightarrow> byte (lowerByte c) = byte c + 32"
  by (simp add: lowerByte_def isUpperASCII_def byte_def)

lemma byte_upperByte: "isLowerASCII c \<Longrightarrow> byte (upperByte c) = byte c - 32"
proof -
  assume l: "isLowerASCII c"
  then have "byte c - 32 < 256" unfolding isLowerASCII_def by arith
  then have "(byte c - 32) mod 256 = byte c - 32" by (rule mod_less)
  with l show ?thesis by (simp add: upperByte_def byte_def)
qed

lemma isLower_lowerByte: "isUpperASCII c \<Longrightarrow> isLowerASCII (lowerByte c)"
  using byte_lowerByte [of c] by (simp add: isLowerASCII_def isUpperASCII_def)

lemma isUpper_upperByte: "isLowerASCII c \<Longrightarrow> isUpperASCII (upperByte c)"
  using byte_upperByte [of c] by (auto simp: isLowerASCII_def isUpperASCII_def)

lemma not_upper_lower: "isUpperASCII c \<Longrightarrow> \<not> isLowerASCII c"
  by (simp add: isLowerASCII_def isUpperASCII_def)

lemma upperByte_lowerByte: "isUpperASCII c \<Longrightarrow> upperByte (lowerByte c) = c"
proof -
  assume u: "isUpperASCII c"
  then have "byte (upperByte (lowerByte c)) = byte c"
    using byte_upperByte [OF isLower_lowerByte [OF u]] byte_lowerByte [OF u] by simp
  then show ?thesis by (simp add: byte_def)
qed

lemma lowerByte_upperByte: "isLowerASCII c \<Longrightarrow> lowerByte (upperByte c) = c"
proof -
  assume l: "isLowerASCII c"
  then have "byte (lowerByte (upperByte c)) = byte c"
    using byte_lowerByte [OF isUpper_upperByte [OF l]] byte_upperByte [OF l]
    by (simp add: isLowerASCII_def)
  then show ?thesis by (simp add: byte_def)
qed

lemma lowerByte_idem: "lowerByte (lowerByte c) = lowerByte c"
  using isLower_lowerByte [of c] not_upper_lower [of "lowerByte c"]
  by (cases "isUpperASCII c") (auto simp: lowerByte_def)

lemma valid_lowerByte: "validHeaderFieldByte (lowerByte c) = validHeaderFieldByte c"
proof (cases "isUpperASCII c")
  case True
  then show ?thesis using isLower_lowerByte [OF True] by (simp add: validHeaderFieldByte_def)
next
  case False
  then show ?thesis by (simp add: lowerByte_def)
qed

lemma lowerByte_dash: "lowerByte c = CHR ''-'' \<longleftrightarrow> c = CHR ''-''"
proof (cases "isUpperASCII c")
  case True
  have "\<not> isLowerASCII CHR ''-''" by (simp add: isLowerASCII_def byte_def)
  moreover have "\<not> isUpperASCII CHR ''-''" by (simp add: isUpperASCII_def byte_def)
  ultimately show ?thesis using True isLower_lowerByte [OF True] by auto
next
  case False
  then show ?thesis by (simp add: lowerByte_def)
qed

lemma canonicalCase_lower: "canonicalCase u (map lowerByte s) = canonicalCase u s"
proof (induction s arbitrary: u)
  case Nil
  show ?case by simp
next
  case (Cons c s)
  show ?case
  proof (cases "isUpperASCII c")
    case True
    note l = isLower_lowerByte [OF True]
    have nl: "\<not> isLowerASCII c" by (rule not_upper_lower [OF True])
    have nu: "\<not> isUpperASCII (lowerByte c)" using l not_upper_lower by blast
    show ?thesis
      by (cases u) (simp_all add: Let_def l nl nu True upperByte_lowerByte Cons.IH)
  next
    case False
    then have "lowerByte c = c" by (simp add: lowerByte_def)
    then show ?thesis by (simp add: Let_def Cons.IH)
  qed
qed

lemma lower_canonicalCase: "map lowerByte (canonicalCase u s) = map lowerByte s"
proof (induction s arbitrary: u)
  case Nil
  show ?case by simp
next
  case (Cons c s)
  have "lowerByte (if u \<and> isLowerASCII c then upperByte c
          else if \<not> u \<and> isUpperASCII c then lowerByte c else c) = lowerByte c"
  proof (cases "isLowerASCII c")
    case True
    then have "\<not> isUpperASCII c" using not_upper_lower by blast
    then have "lowerByte c = c" by (simp add: lowerByte_def)
    then show ?thesis using True by (simp add: lowerByte_upperByte)
  next
    case False
    then show ?thesis by (simp add: lowerByte_idem)
  qed
  then show ?case by (simp add: Let_def Cons.IH)
qed

lemma valid_map_lowerByte:
  "list_all validHeaderFieldByte (map lowerByte s) = list_all validHeaderFieldByte s"
  by (induction s) (simp_all add: valid_lowerByte)

lemma canonical_key_iff:
  assumes "list_all validHeaderFieldByte k" and "CanonicalMIMEHeaderKey k = k"
  shows "k = CanonicalMIMEHeaderKey n \<longleftrightarrow> equalFoldASCII k n"
proof
  assume e: "k = CanonicalMIMEHeaderKey n"
  show "equalFoldASCII k n"
  proof (cases "list_all validHeaderFieldByte n")
    case True
    with e show ?thesis
      by (simp add: CanonicalMIMEHeaderKey_def equalFoldASCII_def lower_canonicalCase)
  next
    case False
    with e show ?thesis by (simp add: CanonicalMIMEHeaderKey_def equalFoldASCII_def)
  qed
next
  assume "equalFoldASCII k n"
  then have m: "map lowerByte k = map lowerByte n" by (simp add: equalFoldASCII_def)
  from assms(1) have "list_all validHeaderFieldByte (map lowerByte k)"
    by (simp add: valid_map_lowerByte)
  with m have v: "list_all validHeaderFieldByte n" by (simp add: valid_map_lowerByte)
  have "canonicalCase True n = canonicalCase True (map lowerByte n)"
    by (rule canonicalCase_lower [symmetric])
  also have "\<dots> = canonicalCase True (map lowerByte k)" by (simp only: m)
  also have "\<dots> = canonicalCase True k" by (rule canonicalCase_lower)
  also have "\<dots> = k" using assms by (simp add: CanonicalMIMEHeaderKey_def)
  finally show "k = CanonicalMIMEHeaderKey n" using v by (simp add: CanonicalMIMEHeaderKey_def)
qed

lemma Header_Get_ignoring_case:
  "canonicalKeys h \<Longrightarrow> Header_Get h name = lookupIgnoringCase h name"
proof (induction h)
  case Nil
  show ?case by (simp add: Header_Get_def)
next
  case (Cons p h)
  obtain k vs where p: "p = (k, vs)" by (cases p)
  from Cons.prems p have k: "list_all validHeaderFieldByte k" "CanonicalMIMEHeaderKey k = k"
    and h: "canonicalKeys h"
    by (simp_all add: canonicalKeys_def)
  from Cons.IH [OF h] have IH: "(case map_of h (CanonicalMIMEHeaderKey name) of
        None \<Rightarrow> [] | Some [] \<Rightarrow> [] | Some (v # _) \<Rightarrow> v) = lookupIgnoringCase h name"
    by (simp add: Header_Get_def)
  show ?case
    using canonical_key_iff [OF k, of name] IH
    by (auto simp: Header_Get_def p)
qed

text \<open>
  Without canonical keys the two lookups differ: an entry stored under \<open>date\<close> is not
  found by \<open>Get\<close>, which looks under \<open>Date\<close>.
\<close>

lemma Header_Get_noncanonical_key:
  "Header_Get [(''date'', [''x''])] ''date'' = [] \<and>
   lookupIgnoringCase [(''date'', [''x''])] ''date'' = ''x'' \<and>
   \<not> canonicalKeys [(''date'', [''x''])]"
proof -
  have c: "CanonicalMIMEHeaderKey ''date'' = ''Date''" by code_simp
  show ?thesis by (simp add: Header_Get_def c equalFoldASCII_def canonicalKeys_def)
qed

lemma canonicalKeys_update:
  assumes "canonicalKeys h" and "list_all validHeaderFieldByte k" and "CanonicalMIMEHeaderKey k = k"
  shows "canonicalKeys (AList.update k v h)"
  using assms by (induction h) (auto simp: canonicalKeys_def)

lemma Join_newline:
  "Join (map f xs) [c] = butlast (concat (map (\<lambda>x. f x @ [c]) xs))"
proof (induction xs)
  case Nil
  show ?case by simp
next
  case (Cons x xs)
  show ?case
  proof (cases xs)
    case Nil
    then show ?thesis by (simp add: butlast_append)
  next
    case (Cons y ys)
    with Cons.IH show ?thesis by (simp add: butlast_append)
  qed
qed

section \<open>Properties of the body hash\<close>

lemma drainBody_simps [simp]:
  "drainBody NoBody = Inr (NoBody, NoBody)"
  "drainBody (Stream buf (Some err) closeErr) = Inl (err, Stream [] (Some err) closeErr)"
  "drainBody (Stream buf None (Some err)) = Inl (err, Stream [] None (Some err))"
  "drainBody (Stream buf None None) = Inr (Stream buf None None, Stream buf None None)"
  by (simp_all add: drainBody_def NopCloser_def)

lemma drainBody_fails:
  "(\<exists>x. drainBody b = Inl x) \<longleftrightarrow>
     (case b of NoBody \<Rightarrow> False | Stream _ readErr closeErr \<Rightarrow> readErr \<noteq> None \<or> closeErr \<noteq> None)"
proof (cases b)
  case NoBody
  then show ?thesis by simp
next
  case (Stream buf readErr closeErr)
  then show ?thesis by (cases readErr; cases closeErr) simp_all
qed

lemma GetBodyHash_readable:
  assumes "bodyReadable r"
  shows "GetBodyHash L r =
    (Inr (EncodeToString (Sum256 L (bodyBytes r))),
     r\<lparr>Body := (case Body r of None \<Rightarrow> None | Some NoBody \<Rightarrow> Some NoBody
                 | Some (Stream buf _ _) \<Rightarrow> Some (Stream buf None None)),
       ContentLength := int (length (bodyBytes r)),
       Header := Header_Set (Header r) ''Content-Length'' (FormatInt (int (length (bodyBytes r))))\<rparr>)"
  using assms
  by (auto simp: GetBodyHash_def bodyReadable_def bodyBytes_def hashAndEncode_def Let_def
      split: option.splits readCloser.splits)

lemma GetBodyHash_unreadable:
  assumes "\<not> bodyReadable r"
  shows "\<exists>e. fst (GetBodyHash L r) = Inl e"
proof -
  from assms obtain b where b: "Body r = Some b"
    by (auto simp: bodyReadable_def split: option.splits)
  with assms have "\<exists>x. drainBody b = Inl x"
    unfolding drainBody_fails by (auto simp: bodyReadable_def split: readCloser.splits)
  then obtain e b' where "drainBody b = Inl (e, b')" by auto
  with b show ?thesis by (simp add: GetBodyHash_def)
qed

lemma GetBodyHash_error_Header:
  assumes "GetBodyHash L r = (Inl e, r')"
  shows "Header r' = Header r \<and> ContentLength r' = ContentLength r"
proof (cases "Body r")
  case None
  with assms show ?thesis by (simp add: GetBodyHash_def Let_def)
next
  case (Some b)
  show ?thesis
  proof (cases "drainBody b")
    case (Inl x)
    with Some assms show ?thesis by (cases x) (auto simp: GetBodyHash_def)
  next
    case (Inr y)
    with Some assms show ?thesis
      by (cases y; cases "ReadAll (fst y)") (auto simp: GetBodyHash_def Let_def)
  qed
qed

lemma calculateHashOfBody_readable:
  assumes "bodyReadable r"
  shows "calculateHashOfBody L r =
    (None,
     r\<lparr>Body := (case Body r of None \<Rightarrow> None | Some NoBody \<Rightarrow> Some NoBody
                 | Some (Stream buf _ _) \<Rightarrow> Some (Stream buf None None)),
       ContentLength := int (length (bodyBytes r)),
       Header := Header_Set
         (Header_Set (Header r) ''Content-Length'' (FormatInt (int (length (bodyBytes r)))))
         ''X-Content-SHA256'' (EncodeToString (Sum256 L (bodyBytes r)))\<rparr>)"
  by (simp add: calculateHashOfBody_def GetBodyHash_readable [OF assms])

lemma calculateHashOfBody_error_Header:
  assumes "calculateHashOfBody L r = (Some e, r')"
  shows "Header r' = Header r"
proof -
  obtain x r1 where g: "GetBodyHash L r = (x, r1)" by (cases "GetBodyHash L r")
  with assms obtain e' where "x = Inl e'" and "r' = r1"
    by (cases x) (auto simp: calculateHashOfBody_def)
  with g show ?thesis using GetBodyHash_error_Header [of L r e' r1] by simp
qed

lemma calculateHashOfBody_other_headers:
  assumes "CanonicalMIMEHeaderKey k \<noteq> ''Content-Length''"
    and "CanonicalMIMEHeaderKey k \<noteq> ''X-Content-Sha256''"
  shows "Header_Get (Header (snd (calculateHashOfBody L r))) k = Header_Get (Header r) k"
proof (cases "bodyReadable r")
  case True
  with assms show ?thesis
    by (simp add: calculateHashOfBody_readable Header_Get_Set canonical_Content_Length
        canonical_X_Content_SHA256)
next
  case False
  then obtain e where "fst (GetBodyHash L r) = Inl e"
    using GetBodyHash_unreadable by blast
  then obtain r1 where g: "GetBodyHash L r = (Inl e, r1)" by (cases "GetBodyHash L r") auto
  then have "calculateHashOfBody L r = (Some e, r1)" by (simp add: calculateHashOfBody_def)
  then show ?thesis using calculateHashOfBody_error_Header [of L r e r1] by simp
qed



section \<open>Properties of signing\<close>

lemma Sign_unfold:
  "Sign L s r =
     (let r1 = afterBodyHash L s r in
      case bodyHashError L s r of
        Some err \<Rightarrow> (Err err, r1)
      | None \<Rightarrow>
          (case computeSignature L s r1 of
             Panic \<Rightarrow> (Panic, r1)
           | Err err \<Rightarrow> (Err err, r1)
           | Ok signature \<Rightarrow>
               (case KeyProvider s of
                  None \<Rightarrow> (Panic, r1)
                | Some provider \<Rightarrow>
                    (case KeyID provider of
                       Inl err \<Rightarrow> (Err err, r1)
                     | Inr keyID \<Rightarrow>
                         (Ok (),
                          r1\<lparr>Header := Header_Set (Header r1) ''Authorization''
                            (authValue signerVersion (Join (getSigningHeaders s r1) '' '')
                               keyID signature)\<rparr>)))))"
proof (cases "ShouldHashBody s r")
  case False
  then show ?thesis
    by (simp add: Sign_def afterBodyHash_def bodyHashError_def Let_def split: result.splits)
next
  case True
  obtain e r1 where c: "calculateHashOfBody L r = (e, r1)" by (cases "calculateHashOfBody L r")
  with True show ?thesis
    by (cases e) (simp_all add: Sign_def afterBodyHash_def bodyHashError_def Let_def
        split: result.splits)
qed

lemma Sign_not_Ok_request:
  "fst (Sign L s r) \<noteq> Ok () \<Longrightarrow> snd (Sign L s r) = afterBodyHash L s r"
  by (simp add: Sign_unfold Let_def split: option.splits result.splits sum.splits)

lemma afterBodyHash_other_headers:
  assumes "CanonicalMIMEHeaderKey k \<noteq> ''Content-Length''"
    and "CanonicalMIMEHeaderKey k \<noteq> ''X-Content-Sha256''"
  shows "Header_Get (Header (afterBodyHash L s r)) k = Header_Get (Header r) k"
  using assms by (simp add: afterBodyHash_def calculateHashOfBody_other_headers)

lemma canonicalKeys_afterBodyHash:
  assumes "canonicalKeys (Header r)"
  shows "canonicalKeys (Header (afterBodyHash L s r))"
proof (cases "ShouldHashBody s r \<and> bodyReadable r")
  case True
  have "canonicalKeys (AList.update ''X-Content-Sha256'' v2
      (AList.update ''Content-Length'' v1 (Header r)))" for v1 v2
    by (intro canonicalKeys_update assms valid_Content_Length canonical_Content_Length
        valid_X_Content_Sha256 canonical_X_Content_Sha256)
  with True show ?thesis
    by (simp add: afterBodyHash_def calculateHashOfBody_readable Header_Set_def
        canonical_Content_Length canonical_X_Content_SHA256)
next
  case False
  show ?thesis
  proof (cases "ShouldHashBody s r")
    case False
    with assms show ?thesis by (simp add: afterBodyHash_def)
  next
    case True
    with \<open>\<not> (ShouldHashBody s r \<and> bodyReadable r)\<close> have "\<not> bodyReadable r" by simp
    then obtain e where "fst (GetBodyHash L r) = Inl e"
      using GetBodyHash_unreadable by blast
    then obtain r1 where "GetBodyHash L r = (Inl e, r1)" by (cases "GetBodyHash L r") auto
    then have "calculateHashOfBody L r = (Some e, r1)" by (simp add: calculateHashOfBody_def)
    from calculateHashOfBody_error_Header [OF this] this assms True show ?thesis
      by (simp add: afterBodyHash_def)
  qed
qed

lemma Sign_Ok_Authorization:
  assumes "Sign L s r = (Ok (), r')"
  shows "\<exists>provider privateKey keyID unencodedSig.
     KeyProvider s = Some provider \<and> PrivateRSAKey provider = Inr privateKey \<and>
     KeyID provider = Inr keyID \<and>
     SignPKCS1v15 L privateKey (Sum256 L (getSigningString L s (afterBodyHash L s r))) =
       Inr unencodedSig \<and>
     r' = (afterBodyHash L s r)\<lparr>Header :=
       Header_Set (Header (afterBodyHash L s r)) ''Authorization''
         (authValue ''1'' (Join (getSigningHeaders s (afterBodyHash L s r)) '' '') keyID
            (EncodeToString unencodedSig))\<rparr>"
  using assms
  by (auto simp: Sign_unfold computeSignature_def signerVersion_def Let_def
      split: option.splits result.splits sum.splits)

lemma Sign_Ok_Authorization_value:
  assumes "Sign L s r = (Ok (), r')"
  shows "\<exists>keyID signature.
     Header_Get (Header r') ''Authorization'' =
       authValue ''1'' (Join (getSigningHeaders s (afterBodyHash L s r)) '' '') keyID signature"
proof -
  from Sign_Ok_Authorization [OF assms] obtain keyID unencodedSig where
    "r' = (afterBodyHash L s r)\<lparr>Header :=
       Header_Set (Header (afterBodyHash L s r)) ''Authorization''
         (authValue ''1'' (Join (getSigningHeaders s (afterBodyHash L s r)) '' '') keyID
            (EncodeToString unencodedSig))\<rparr>"
    by blast
  then have "Header_Get (Header r') ''Authorization'' =
       authValue ''1'' (Join (getSigningHeaders s (afterBodyHash L s r)) '' '') keyID
         (EncodeToString unencodedSig)"
    by (simp add: Header_Get_Set)
  then show ?thesis by blast
qed

lemma Sign_Ok_body_headers:
  assumes "Sign L s r = (Ok (), r')" and "ShouldHashBody s r"
  shows "Header_Get (Header r') ''X-Content-SHA256'' = EncodeToString (Sum256 L (bodyBytes r))"
    and "Header_Get (Header r') ''Content-Length'' = FormatInt (int (length (bodyBytes r)))"
    and "ContentLength r' = int (length (bodyBytes r))"
proof -
  from assms(1) have e: "bodyHashError L s r = None"
    by (auto simp: Sign_unfold Let_def split: option.splits result.splits sum.splits)
  have rd: "bodyReadable r"
  proof (rule ccontr)
    assume "\<not> bodyReadable r"
    then obtain x where "fst (GetBodyHash L r) = Inl x"
      using GetBodyHash_unreadable by blast
    then have "fst (calculateHashOfBody L r) = Some x"
      by (cases "GetBodyHash L r") (auto simp: calculateHashOfBody_def)
    with e assms(2) show False by (simp add: bodyHashError_def)
  qed
  from Sign_Ok_Authorization [OF assms(1)] obtain v where
    r': "r' = (afterBodyHash L s r)\<lparr>Header :=
       Header_Set (Header (afterBodyHash L s r)) ''Authorization'' v\<rparr>"
    by blast
  have a: "afterBodyHash L s r = snd (calculateHashOfBody L r)"
    using assms(2) by (simp add: afterBodyHash_def)
  show "Header_Get (Header r') ''X-Content-SHA256'' = EncodeToString (Sum256 L (bodyBytes r))"
    and "Header_Get (Header r') ''Content-Length'' = FormatInt (int (length (bodyBytes r)))"
    and "ContentLength r' = int (length (bodyBytes r))"
    by (simp_all add: r' a calculateHashOfBody_readable [OF rd] Header_Get_Set
        canonical_Authorization canonical_Content_Length canonical_X_Content_SHA256)
qed

lemma computeSignature_nil: "KeyProvider s = None \<Longrightarrow> computeSignature L s r = Panic"
  by (simp add: computeSignature_def Let_def)

lemma computeSignature_bound:
  "KeyProvider s = Some provider \<Longrightarrow> computeSignature L s r \<noteq> Panic"
  by (simp add: computeSignature_def Let_def split: sum.splits)

lemma signingPart_spec:
  assumes "canonicalKeys (Header r)"
  shows "signingPart L r name =
     ToLower L name @ '': '' @ spec_headerValue L r (ToLower L name)"
  by (simp add: signingPart_def spec_headerValue_def getRequestTarget_def Let_def
      Header_Get_ignoring_case [OF assms])












lemma builtin_predicates_content:
  assumes "Method r1 = Method r2" and "Header r1 = Header r2"
  shows "defaultBodyHashPredicate r1 = defaultBodyHashPredicate r2"
    and "ShouldHashBody (RequestSigner p g b) r1 = ShouldHashBody (RequestSigner p g b) r2"
    and "ShouldHashBody (DefaultRequestSigner p) r1 = ShouldHashBody (DefaultRequestSigner p) r2"
    and "ShouldHashBody (DelegationRequestSigner p) r1 =
      ShouldHashBody (DelegationRequestSigner p) r2"
    and "ShouldHashBody (RequestSignerExcludeBody p) r1 =
      ShouldHashBody (RequestSignerExcludeBody p) r2"
    and "ShouldHashBody (DelegationRequestSignerExcludeBody p) r1 =
      ShouldHashBody (DelegationRequestSignerExcludeBody p) r2"
  using assms
  by (simp_all add: defaultBodyHashPredicate_def RequestSigner_def DefaultRequestSigner_def
      DelegationRequestSigner_def RequestSignerExcludeBody_def
      DelegationRequestSignerExcludeBody_def RequestSignerWithBodyHashingPredicate_def)

section \<open>Properties of the retriever\<close>

lemma Refresh_error_state:
  "Refresh env cfg st = (Some e, st') \<Longrightarrow> st' = st"
  by (auto simp: Refresh_def split: sum.splits option.splits)

lemma Refresh_outcome_independent:
  "fst (Refresh env cfg st) = fst (Refresh env cfg st0)"
  by (simp add: Refresh_def split: sum.splits option.splits)

lemma refreshAll_failures:
  "list_all (\<lambda>env. fst (Refresh env cfg None) \<noteq> None) envs \<Longrightarrow> refreshAll envs cfg st = st"
proof (induction envs arbitrary: st)
  case Nil
  show ?case by simp
next
  case (Cons env envs)
  then have "fst (Refresh env cfg st) \<noteq> None"
    using Refresh_outcome_independent [of env cfg st None] by simp
  then obtain e where "Refresh env cfg st = (Some e, snd (Refresh env cfg st))"
    by (cases "Refresh env cfg st") auto
  then have "snd (Refresh env cfg st) = st" by (rule Refresh_error_state)
  with Cons show ?case by simp
qed

section \<open>The examples evaluated\<close>

lemma example_no_body_hash:
  "\<not> ShouldHashBody (DefaultRequestSigner p) exampleRequest"
  by (simp add: DefaultRequestSigner_def RequestSigner_def defaultBodyHashPredicate_def
      Header_Get_def canonical_marker exampleRequest_def)

lemma example_body_hash:
  "ShouldHashBody (DefaultRequestSigner p) exampleBodyRequest"
  by (simp add: DefaultRequestSigner_def RequestSigner_def defaultBodyHashPredicate_def
      exampleBodyRequest_def)

lemma example_bodyReadable: "bodyReadable exampleBodyRequest"
  by (simp add: bodyReadable_def exampleBodyRequest_def)

lemma example_bodyBytes: "bodyBytes exampleBodyRequest = ''hello''"
  by (simp add: bodyBytes_def exampleBodyRequest_def)

lemma example_hash: "EncodeToString (Sum256 exampleLib ''hello'') = ''b2xsZWg=''"
  by (simp add: exampleLib_def byte_def encodeStd_def Let_def)

lemma example_canonicalKeys: "canonicalKeys (Header exampleRequest)"
  by (simp add: canonicalKeys_def exampleRequest_def CanonicalMIMEHeaderKey_def
      validHeaderFieldByte_def isUpperASCII_def isLowerASCII_def isDigitASCII_def byte_def
      Let_def)

lemma example_ToLower:
  "ToLower exampleLib ''Date'' = ''date''"
  "ToLower exampleLib ''(Request-Target)'' = ''(request-target)''"
  "ToLower exampleLib ''Host'' = ''host''"
  "ToLower exampleLib ''X-Missing'' = ''x-missing''"
  "ToLower exampleLib ''GET'' = ''get''"
  by (simp_all add: ToLower_def lowerByte_def isUpperASCII_def byte_def char_of_eq_iff)

lemma mixedCase_no_body_hash: "\<not> ShouldHashBody mixedCaseSigner exampleRequest"
  by (simp add: mixedCaseSigner_def RequestSigner_def defaultBodyHashPredicate_def
      Header_Get_def canonical_marker exampleRequest_def)

lemma example_RequestURI: "RequestURI (URL exampleRequest) = ''/v1/x''"
  by (simp add: RequestURI_def exampleRequest_def exampleURL_def)

section \<open>Failure atomicity of Refresh\<close>

text \<open>
  Claim C1. A \<open>Refresh\<close> of the URL-based retriever that returns an error leaves the
  stored state, and so what the four accessors return, exactly as it was; it returns an
  error whenever the certificate fetch, the certificate parse, the configured key fetch
  (also after the certificate fetch succeeded) or the key parse fails; and any sequence
  of failing refreshes leaves the last stored snapshot (or nothing) in place.
\<close>

theorem Refresh_failure_atomic:
  "(\<forall>e st'. Refresh env cfg (st :: ('c, 'k) retriever) = (Some e, st') \<longrightarrow>
      st' = st \<and> CertificatePemRaw st' = CertificatePemRaw st \<and>
      Certificate st' = Certificate st \<and> PrivateKeyPemRaw st' = PrivateKeyPemRaw st \<and>
      PrivateKey st' = PrivateKey st) \<and>
   (\<forall>e. fetch env (certificateURL cfg) = Inl e \<longrightarrow> Refresh env cfg st = (Some e, st)) \<and>
   (\<forall>certPem. fetch env (certificateURL cfg) = Inr certPem \<and>
      parseCertificate env certPem = None \<longrightarrow>
      fst (Refresh env cfg st) \<noteq> None \<and> snd (Refresh env cfg st) = st) \<and>
   (\<forall>certPem cert keyURL e. fetch env (certificateURL cfg) = Inr certPem \<and>
      parseCertificate env certPem = Some cert \<and> privateKeyURL cfg = Some keyURL \<and>
      fetch env keyURL = Inl e \<longrightarrow>
      Refresh env cfg st = (Some e, st)) \<and>
   (\<forall>certPem cert keyURL keyPem. fetch env (certificateURL cfg) = Inr certPem \<and>
      parseCertificate env certPem = Some cert \<and> privateKeyURL cfg = Some keyURL \<and>
      fetch env keyURL = Inr keyPem \<and> parsePrivateKey env keyPem (passphrase cfg) = None \<longrightarrow>
      fst (Refresh env cfg st) \<noteq> None \<and> snd (Refresh env cfg st) = st) \<and>
   (\<forall>envs. list_all (\<lambda>env. fst (Refresh env cfg None) \<noteq> None) envs \<longrightarrow>
      refreshAll envs cfg st = st)"
proof (intro conjI allI impI)
  fix e st' assume "Refresh env cfg st = (Some e, st')"
  then show "st' = st" by (rule Refresh_error_state)
  then show "CertificatePemRaw st' = CertificatePemRaw st" and "Certificate st' = Certificate st"
    and "PrivateKeyPemRaw st' = PrivateKeyPemRaw st" and "PrivateKey st' = PrivateKey st"
    by simp_all
next
  fix e assume "fetch env (certificateURL cfg) = Inl e"
  then show "Refresh env cfg st = (Some e, st)" by (simp add: Refresh_def)
next
  fix certPem
  assume a: "fetch env (certificateURL cfg) = Inr certPem \<and> parseCertificate env certPem = None"
  then show "fst (Refresh env cfg st) \<noteq> None" and "snd (Refresh env cfg st) = st"
    by (simp_all add: Refresh_def)
next
  fix certPem cert keyURL e
  assume "fetch env (certificateURL cfg) = Inr certPem \<and>
      parseCertificate env certPem = Some cert \<and> privateKeyURL cfg = Some keyURL \<and>
      fetch env keyURL = Inl e"
  then show "Refresh env cfg st = (Some e, st)" by (simp add: Refresh_def)
next
  fix certPem cert keyURL keyPem
  assume "fetch env (certificateURL cfg) = Inr certPem \<and>
      parseCertificate env certPem = Some cert \<and> privateKeyURL cfg = Some keyURL \<and>
      fetch env keyURL = Inr keyPem \<and> parsePrivateKey env keyPem (passphrase cfg) = None"
  then show "fst (Refresh env cfg st) \<noteq> None" and "snd (Refresh env cfg st) = st"
    by (simp_all add: Refresh_def)
next
  fix envs :: "('c, 'k) refreshEnv list"
  assume "list_all (\<lambda>env. fst (Refresh env cfg None) \<noteq> None) envs"
  then show "refreshAll envs cfg st = st" by (rule refreshAll_failures)
qed

theorem Refresh_failure_atomic_witness:
  "Refresh serversUp exampleConfig None = (None, Some materialA) \<and>
   Refresh keyServerDown exampleConfig (Some materialA) =
     (Some (Errorf ''unexpected status''), Some materialA) \<and>
   CertificatePemRaw (snd (Refresh keyServerDown exampleConfig (Some materialA))) = Some ''CERT-A'' \<and>
   PrivateKeyPemRaw (snd (Refresh keyServerDown exampleConfig (Some materialA))) = Some ''KEY-A'' \<and>
   Refresh keyServerDown exampleConfig None = (Some (Errorf ''unexpected status''), None) \<and>
   refreshAll [serversUp, keyServerDown, keyServerDown] exampleConfig None = Some materialA"
proof -
  have up: "Refresh serversUp exampleConfig None = (None, Some materialA)"
    by (simp add: Refresh_def fetch_def serversUp_def exampleParsers_def exampleConfig_def
        materialA_def HasPrefix_def)
  have c: "fetch keyServerDown (certificateURL exampleConfig) = Inr ''CERT-B''"
    and p: "parseCertificate keyServerDown ''CERT-B'' = Some ''-B''"
    and u: "privateKeyURL exampleConfig = Some ''http://key''"
    and k: "fetch keyServerDown ''http://key'' = Inl (Errorf ''unexpected status'')"
    by (simp_all add: fetch_def keyServerDown_def exampleParsers_def exampleConfig_def
        HasPrefix_def)
  have down: "Refresh keyServerDown exampleConfig st = (Some (Errorf ''unexpected status''), st)"
    for st
    using Refresh_failure_atomic [of keyServerDown exampleConfig st, THEN conjunct2,
        THEN conjunct2, THEN conjunct2, THEN conjunct1, rule_format,
        of "''CERT-B''" "''-B''" "''http://key''" "Errorf ''unexpected status''"] c p u k
    by simp
  have acc: "CertificatePemRaw (Some materialA) = Some ''CERT-A''"
    "PrivateKeyPemRaw (Some materialA) = Some ''KEY-A''"
    by (simp_all add: CertificatePemRaw_def PrivateKeyPemRaw_def materialA_def)
  show ?thesis
    by (simp add: up down acc)
qed

section \<open>The Authorization header\<close>

text \<open>
  Claim C2. On success the \<open>Authorization\<close> header has the documented shape, with
  \<open>version="1"\<close> and \<open>algorithm="rsa-sha256"\<close> literal, the key id of the provider and the
  base64 encoding of the signature (\<open>Sign_Ok_Authorization\<close>), but the header names in
  \<open>headers="..."\<close> are the configured names joined as they are: the signing string
  lower-cases them, \<open>Sign\<close> does not. The signer configured with the names \<open>Date\<close>,
  \<open>(Request-Target)\<close>, \<open>Host\<close>, \<open>X-Missing\<close> signs over \<open>date\<close>, \<open>(request-target)\<close>,
  \<open>host\<close>, \<open>x-missing\<close> and announces \<open>headers="Date (Request-Target) Host X-Missing"\<close>.
\<close>

theorem Sign_headers_not_lower_cased:
  "fst (Sign exampleLib mixedCaseSigner exampleRequest) = Ok () \<and>
   Header_Get (Header (snd (Sign exampleLib mixedCaseSigner exampleRequest))) ''Authorization'' =
     authValue ''1'' ''Date (Request-Target) Host X-Missing'' ''tenancy/user/fingerprint''
       (EncodeToString (''sig:'' @ rev (getSigningString exampleLib mixedCaseSigner exampleRequest))) \<and>
   Header_Get (Header (snd (Sign exampleLib mixedCaseSigner exampleRequest))) ''Authorization'' \<noteq>
     authValue ''1'' ''date (request-target) host x-missing'' ''tenancy/user/fingerprint''
       (EncodeToString (''sig:'' @ rev (getSigningString exampleLib mixedCaseSigner exampleRequest))) \<and>
   map (ToLower exampleLib) (getSigningHeaders mixedCaseSigner exampleRequest) =
     [''date'', ''(request-target)'', ''host'', ''x-missing'']"
proof -
  have none: "bodyHashError exampleLib mixedCaseSigner exampleRequest = None"
    and same: "afterBodyHash exampleLib mixedCaseSigner exampleRequest = exampleRequest"
    by (simp_all add: bodyHashError_def afterBodyHash_def mixedCase_no_body_hash)
  have hs: "getSigningHeaders mixedCaseSigner exampleRequest =
      [''Date'', ''(Request-Target)'', ''Host'', ''X-Missing'']"
    by (simp add: getSigningHeaders_def mixedCase_no_body_hash)
      (simp add: mixedCaseSigner_def RequestSigner_def)
  have kp: "KeyProvider mixedCaseSigner = Some exampleProvider"
    by (simp add: mixedCaseSigner_def RequestSigner_def)
  have sig: "SignPKCS1v15 exampleLib 7 d = Inr (''sig:'' @ d)" for d
    by (simp add: exampleLib_def)
  have sum: "Sum256 exampleLib d = rev d" for d
    by (simp add: exampleLib_def)
  have s: "Sign exampleLib mixedCaseSigner exampleRequest =
    (Ok (), exampleRequest\<lparr>Header := Header_Set (Header exampleRequest) ''Authorization''
       (authValue ''1'' ''Date (Request-Target) Host X-Missing'' ''tenancy/user/fingerprint''
         (EncodeToString (''sig:'' @ rev (getSigningString exampleLib mixedCaseSigner exampleRequest))))\<rparr>)"
    by (simp add: Sign_unfold none same computeSignature_def kp sig sum hs signerVersion_def
        exampleProvider_def del: EncodeToString.simps)
  show ?thesis
    by (simp add: s Header_Get_Set hs example_ToLower authValue_def del: EncodeToString.simps)
qed

section \<open>The canonical signing string\<close>

text \<open>
  Claim C3, amended. For every signer configuration and every request whose header keys
  are header-name tokens in canonical form, the canonical signing string is the reference
  construction: one line \<open>name: value\<close> per signing header (generic headers, then body
  headers iff the predicate holds), in configured order with the names lower-cased,
  separated by single newlines with no trailing newline, with \<open>(request-target)\<close> and
  \<open>host\<close> special-cased and every other name looked up ignoring case, a missing header
  giving the empty value.
\<close>


theorem getSigningString_reference:
  assumes "canonicalKeys (Header r)"
  shows "getSigningString L signer r = spec_signingString L signer r"
proof -
  have "getSigningHeaders signer r = spec_signingHeaderList signer r"
    by (simp add: getSigningHeaders_def spec_signingHeaderList_def)
  then show ?thesis
    by (simp add: getSigningString_def spec_signingString_def Join_newline
        signingPart_spec [OF assms])
qed

theorem getSigningString_reference_witness:
  "getSigningString exampleLib mixedCaseSigner exampleRequest =
     ''date: Mon, 02 Nov 2026 10:00:00 GMT'' @ [CHR 0x0A] @
     ''(request-target): get /v1/x'' @ [CHR 0x0A] @
     ''host: example.com'' @ [CHR 0x0A] @
     ''x-missing: ''"
proof -
  have l: "spec_signingHeaderList mixedCaseSigner exampleRequest =
      [''Date'', ''(Request-Target)'', ''Host'', ''X-Missing'']"
    by (simp add: spec_signingHeaderList_def mixedCase_no_body_hash)
      (simp add: mixedCaseSigner_def RequestSigner_def)
  have v: "spec_headerValue exampleLib exampleRequest ''date'' = ''Mon, 02 Nov 2026 10:00:00 GMT''"
    "spec_headerValue exampleLib exampleRequest ''(request-target)'' = ''get /v1/x''"
    "spec_headerValue exampleLib exampleRequest ''host'' = ''example.com''"
    "spec_headerValue exampleLib exampleRequest ''x-missing'' = []"
    by (simp_all add: spec_headerValue_def example_RequestURI)
      (simp_all add: exampleRequest_def exampleURL_def example_ToLower equalFoldASCII_def
        lowerByte_def isUpperASCII_def byte_def char_of_eq_iff)
  show ?thesis
    using getSigningString_reference [OF example_canonicalKeys, of exampleLib mixedCaseSigner]
    by (simp add: spec_signingString_def l v example_ToLower)
qed

text \<open>
  As stated for every request the claim fails: \<open>Header.Get\<close> looks only under the
  canonical key, so an entry stored under the key \<open>date\<close> is not found and the line is
  \<open>date: \<close> with an empty value, where a lookup ignoring case finds the value.
\<close>

theorem getSigningString_reference_counterexample:
  "getSigningString exampleLib (DefaultRequestSigner (Some exampleProvider)) exampleLowerKeyRequest =
     ''date: '' @ [CHR 0x0A] @
     ''(request-target): get /v1/x'' @ [CHR 0x0A] @
     ''host: example.com'' \<and>
   spec_signingString exampleLib (DefaultRequestSigner (Some exampleProvider)) exampleLowerKeyRequest =
     ''date: Mon, 02 Nov 2026 10:00:00 GMT'' @ [CHR 0x0A] @
     ''(request-target): get /v1/x'' @ [CHR 0x0A] @
     ''host: example.com'' \<and>
   getSigningString exampleLib (DefaultRequestSigner (Some exampleProvider)) exampleLowerKeyRequest \<noteq>
     spec_signingString exampleLib (DefaultRequestSigner (Some exampleProvider)) exampleLowerKeyRequest"
proof -
  let ?s = "DefaultRequestSigner (Some exampleProvider)"
  have marker: "Header_Get (Header exampleLowerKeyRequest) ''X-Nosql-Hash-Body'' = []"
    by (simp add: Header_Get_def canonical_marker exampleLowerKeyRequest_def)
  have p: "\<not> ShouldHashBody ?s exampleLowerKeyRequest"
    by (simp add: DefaultRequestSigner_def RequestSigner_def defaultBodyHashPredicate_def marker)
      (simp add: exampleLowerKeyRequest_def exampleRequest_def)
  have g: "GenericHeaders ?s = [''date'', ''(request-target)'', ''host'']"
    by (simp add: DefaultRequestSigner_def RequestSigner_def defaultGenericHeaders_def)
  have low: "ToLower exampleLib ''date'' = ''date''"
    "ToLower exampleLib ''(request-target)'' = ''(request-target)''"
    "ToLower exampleLib ''host'' = ''host''"
    by (simp_all add: ToLower_def lowerByte_def isUpperASCII_def byte_def)
  have c: "CanonicalMIMEHeaderKey ''date'' = ''Date''" by code_simp
  have get: "Header_Get (Header exampleLowerKeyRequest) ''date'' = []"
    by (simp add: Header_Get_def c exampleLowerKeyRequest_def)
  have look: "lookupIgnoringCase (Header exampleLowerKeyRequest) ''date'' =
      ''Mon, 02 Nov 2026 10:00:00 GMT''"
    by (simp add: exampleLowerKeyRequest_def equalFoldASCII_def)
  have u: "RequestURI (URL exampleLowerKeyRequest) = ''/v1/x''"
    and m: "Method exampleLowerKeyRequest = ''GET''"
    and h: "uHost (URL exampleLowerKeyRequest) = ''example.com''"
    by (simp_all add: exampleLowerKeyRequest_def exampleRequest_def exampleURL_def RequestURI_def)
  have a: "getSigningString exampleLib ?s exampleLowerKeyRequest =
     ''date: '' @ [CHR 0x0A] @ ''(request-target): get /v1/x'' @ [CHR 0x0A] @ ''host: example.com''"
    by (simp add: getSigningString_def getSigningHeaders_def p g signingPart_def low get
        getRequestTarget_def u m h example_ToLower Let_def)
  have b: "spec_signingString exampleLib ?s exampleLowerKeyRequest =
     ''date: Mon, 02 Nov 2026 10:00:00 GMT'' @ [CHR 0x0A] @
     ''(request-target): get /v1/x'' @ [CHR 0x0A] @ ''host: example.com''"
    by (simp add: spec_signingString_def spec_signingHeaderList_def p g spec_headerValue_def low
        look u m h example_ToLower)
  show ?thesis
    unfolding a b by simp
qed


section \<open>The body hash and the content length\<close>

text \<open>
  Claim C4. When the body can be read, \<open>GetBodyHash\<close> returns the standard base64
  encoding of the SHA-256 digest of the body's bytes and sets the \<open>ContentLength\<close> field
  and the \<open>Content-Length\<close> header to the number of those bytes (the header in decimal);
  with a nil body the length is 0 and the digest is that of the empty sequence; the
  signer's step \<open>calculateHashOfBody\<close> then stores the value under \<open>X-Content-SHA256\<close>,
  where it still is, with the length, after a successful \<open>Sign\<close>.
  \<open>GetBodyHash\<close> succeeds only when the body can be read.
\<close>

theorem GetBodyHash_hash_and_length:
  "(bodyReadable r \<longrightarrow>
      fst (GetBodyHash L r) = Inr (EncodeToString (Sum256 L (bodyBytes r))) \<and>
      ContentLength (snd (GetBodyHash L r)) = int (length (bodyBytes r)) \<and>
      Header_Get (Header (snd (GetBodyHash L r))) ''Content-Length'' =
        FormatInt (int (length (bodyBytes r))) \<and>
      decimalValue (FormatInt (int (length (bodyBytes r)))) = length (bodyBytes r) \<and>
      fst (calculateHashOfBody L r) = None \<and>
      Header_Get (Header (snd (calculateHashOfBody L r))) ''X-Content-SHA256'' =
        EncodeToString (Sum256 L (bodyBytes r)) \<and>
      Header_Get (Header (snd (calculateHashOfBody L r))) ''Content-Length'' =
        FormatInt (int (length (bodyBytes r)))) \<and>
   (Body r = None \<longrightarrow>
      fst (GetBodyHash L r) = Inr (EncodeToString (Sum256 L [])) \<and>
      ContentLength (snd (GetBodyHash L r)) = 0 \<and>
      Header_Get (Header (snd (GetBodyHash L r))) ''Content-Length'' = ''0'') \<and>
   (\<forall>h r'. GetBodyHash L r = (Inr h, r') \<longrightarrow> bodyReadable r) \<and>
   (\<forall>r'. Sign L s r = (Ok (), r') \<and> ShouldHashBody s r \<longrightarrow>
      Header_Get (Header r') ''X-Content-SHA256'' = EncodeToString (Sum256 L (bodyBytes r)) \<and>
      Header_Get (Header r') ''Content-Length'' = FormatInt (int (length (bodyBytes r))) \<and>
      ContentLength r' = int (length (bodyBytes r)))"
proof (intro conjI impI allI)
  fix r' assume "Sign L s r = (Ok (), r') \<and> ShouldHashBody s r"
  then have s: "Sign L s r = (Ok (), r')" and p: "ShouldHashBody s r" by simp_all
  show "Header_Get (Header r') ''X-Content-SHA256'' = EncodeToString (Sum256 L (bodyBytes r))"
    and "Header_Get (Header r') ''Content-Length'' = FormatInt (int (length (bodyBytes r)))"
    and "ContentLength r' = int (length (bodyBytes r))"
    by (rule Sign_Ok_body_headers [OF s p])+
next
  fix h r' assume "GetBodyHash L r = (Inr h, r')"
  then show "bodyReadable r"
    using GetBodyHash_unreadable [of r L] by (cases "bodyReadable r") auto
next
  assume n: "Body r = None"
  then have rd: "bodyReadable r" and bb: "bodyBytes r = []"
    by (simp_all add: bodyReadable_def bodyBytes_def)
  have z: "FormatInt 0 = ''0''" by (simp add: FormatInt_def natDecimal.simps char_of_eq_iff)
  show "fst (GetBodyHash L r) = Inr (EncodeToString (Sum256 L []))"
    and "ContentLength (snd (GetBodyHash L r)) = 0"
    and "Header_Get (Header (snd (GetBodyHash L r))) ''Content-Length'' = ''0''"
    by (simp_all add: GetBodyHash_readable [OF rd] bb Header_Get_Set z)
next
  assume rd: "bodyReadable r"
  show "decimalValue (FormatInt (int (length (bodyBytes r)))) = length (bodyBytes r)"
    by (simp add: FormatInt_def decimalValue_natDecimal)
  show "fst (GetBodyHash L r) = Inr (EncodeToString (Sum256 L (bodyBytes r)))"
    and "ContentLength (snd (GetBodyHash L r)) = int (length (bodyBytes r))"
    and "Header_Get (Header (snd (GetBodyHash L r))) ''Content-Length'' =
        FormatInt (int (length (bodyBytes r)))"
    by (simp_all add: GetBodyHash_readable [OF rd] Header_Get_Set)
  show "fst (calculateHashOfBody L r) = None"
    and "Header_Get (Header (snd (calculateHashOfBody L r))) ''X-Content-SHA256'' =
        EncodeToString (Sum256 L (bodyBytes r))"
    and "Header_Get (Header (snd (calculateHashOfBody L r))) ''Content-Length'' =
        FormatInt (int (length (bodyBytes r)))"
    by (simp_all add: calculateHashOfBody_readable [OF rd] Header_Get_Set
        canonical_Content_Length canonical_X_Content_SHA256)
qed

theorem GetBodyHash_hash_and_length_witness:
  "fst (GetBodyHash exampleLib exampleBodyRequest) = Inr ''b2xsZWg='' \<and>
   ContentLength (snd (GetBodyHash exampleLib exampleBodyRequest)) = 5 \<and>
   Header_Get (Header (snd (GetBodyHash exampleLib exampleBodyRequest))) ''Content-Length'' = ''5'' \<and>
   Header_Get (Header (snd (calculateHashOfBody exampleLib exampleBodyRequest))) ''X-Content-SHA256'' =
     ''b2xsZWg='' \<and>
   fst (GetBodyHash exampleLib exampleRequest) = Inr [] \<and>
   Header_Get (Header (snd (GetBodyHash exampleLib exampleRequest))) ''Content-Length'' = ''0''"
proof -
  have rd: "bodyReadable exampleBodyRequest" and bb: "bodyBytes exampleBodyRequest = ''hello''"
    by (simp_all add: bodyReadable_def bodyBytes_def exampleBodyRequest_def)
  have n: "Body exampleRequest = None"
    by (simp add: exampleRequest_def)
  have h: "EncodeToString (Sum256 exampleLib ''hello'') = ''b2xsZWg=''"
    by (simp add: exampleLib_def byte_def encodeStd_def Let_def)
  have h0: "EncodeToString (Sum256 exampleLib []) = []"
    by (simp add: exampleLib_def)
  have f: "FormatInt 5 = ''5''"
    by (simp add: FormatInt_def natDecimal.simps char_of_eq_iff)
  note T = GetBodyHash_hash_and_length [of _ exampleLib "DefaultRequestSigner (Some exampleProvider)"]
  from T [of exampleBodyRequest, THEN conjunct1, rule_format, OF rd]
    T [of exampleRequest, THEN conjunct2, THEN conjunct1, rule_format, OF n]
  show ?thesis
    by (simp add: bb h h0 f)
qed

section \<open>The body after the hash\<close>

text \<open>
  Claim C5. After a successful \<open>GetBodyHash\<close> the request's body delivers exactly the
  bytes the body held before, and can again be read to the end; \<open>GetBodyHash\<close> succeeds
  whenever the body can be read and closed. The same holds for the request a successful
  \<open>Sign\<close> leaves.
\<close>

theorem GetBodyHash_preserves_body:
  "(\<forall>h r'. GetBodyHash L r = (Inr h, r') \<longrightarrow>
      readBody r' = Inr (bodyBytes r) \<and> bodyBytes r' = bodyBytes r \<and> bodyReadable r') \<and>
   (bodyReadable r \<longrightarrow>
      readBody r = Inr (bodyBytes r) \<and> (\<exists>h r'. GetBodyHash L r = (Inr h, r'))) \<and>
   (\<forall>r'. Sign L s r = (Ok (), r') \<longrightarrow>
      bodyBytes r' = bodyBytes r \<and> (ShouldHashBody s r \<longrightarrow> readBody r' = Inr (bodyBytes r)))"
proof (intro conjI allI impI)
  fix h r' assume g: "GetBodyHash L r = (Inr h, r')"
  then have rd: "bodyReadable r"
    using GetBodyHash_unreadable [of r L] by (cases "bodyReadable r") auto
  from g GetBodyHash_readable [OF rd, of L]
  have b: "Body r' = (case Body r of None \<Rightarrow> None | Some NoBody \<Rightarrow> Some NoBody
                 | Some (Stream buf _ _) \<Rightarrow> Some (Stream buf None None))"
    by auto
  show "readBody r' = Inr (bodyBytes r)" and "bodyBytes r' = bodyBytes r" and "bodyReadable r'"
    by (simp_all add: readBody_def bodyBytes_def bodyReadable_def b
        split: option.splits readCloser.splits)
next
  assume rd: "bodyReadable r"
  then show "readBody r = Inr (bodyBytes r)"
    by (auto simp: readBody_def bodyBytes_def bodyReadable_def
        split: option.splits readCloser.splits)
  show "\<exists>h r'. GetBodyHash L r = (Inr h, r')"
    using GetBodyHash_readable [OF rd, of L] by blast
next
  fix r' assume a: "Sign L s r = (Ok (), r')"
  then have e: "bodyHashError L s r = None" and b: "Body r' = Body (afterBodyHash L s r)"
    by (auto simp: Sign_unfold Let_def split: option.splits result.splits sum.splits)
  have rd: "bodyReadable r" if "ShouldHashBody s r"
  proof (rule ccontr)
    assume "\<not> bodyReadable r"
    then obtain x where "fst (GetBodyHash L r) = Inl x"
      using GetBodyHash_unreadable by blast
    then have "fst (calculateHashOfBody L r) = Some x"
      by (cases "GetBodyHash L r") (auto simp: calculateHashOfBody_def)
    with e that show False by (simp add: bodyHashError_def)
  qed
  show "bodyBytes r' = bodyBytes r"
  proof (cases "ShouldHashBody s r")
    case True
    from rd [OF True] show ?thesis
      by (simp add: bodyBytes_def b afterBodyHash_def True calculateHashOfBody_readable
          split: option.splits readCloser.splits)
  next
    case False
    then show ?thesis by (simp add: bodyBytes_def b afterBodyHash_def)
  qed
  assume t: "ShouldHashBody s r"
  from rd [OF t] show "readBody r' = Inr (bodyBytes r)"
    by (simp add: readBody_def bodyBytes_def b afterBodyHash_def t calculateHashOfBody_readable
        split: option.splits readCloser.splits)
qed

theorem GetBodyHash_preserves_body_witness:
  "readBody (snd (GetBodyHash exampleLib exampleBodyRequest)) = Inr ''hello'' \<and>
   readBody exampleBodyRequest = Inr ''hello''"
proof -
  have rd: "bodyReadable exampleBodyRequest" and bb: "bodyBytes exampleBodyRequest = ''hello''"
    by (simp_all add: bodyReadable_def bodyBytes_def exampleBodyRequest_def)
  obtain h r' where g: "GetBodyHash exampleLib exampleBodyRequest = (Inr h, r')"
    using GetBodyHash_preserves_body [of exampleLib exampleBodyRequest "DefaultRequestSigner (Some exampleProvider)"] rd by blast
  then show ?thesis
    using GetBodyHash_preserves_body [of exampleLib exampleBodyRequest "DefaultRequestSigner (Some exampleProvider)"] rd bb by simp
qed

section \<open>Failure of Sign\<close>

text \<open>
  Claim C6. When \<open>Sign\<close> returns an error, the request is exactly as the body-hash step
  left it: the \<open>Authorization\<close> header and every header other than \<open>Content-Length\<close>
  and \<open>X-Content-SHA256\<close> read as before the call. A failing \<open>PrivateRSAKey\<close>, a
  failing signing primitive and a failing \<open>KeyID\<close> each make \<open>Sign\<close> return an error.
\<close>

theorem Sign_failure_frame:
  "(\<forall>e r'. Sign L s r = (Err e, r') \<longrightarrow>
      r' = afterBodyHash L s r \<and>
      Header_Get (Header r') ''Authorization'' = Header_Get (Header r) ''Authorization'' \<and>
      (\<forall>k. CanonicalMIMEHeaderKey k \<noteq> ''Content-Length'' \<and>
           CanonicalMIMEHeaderKey k \<noteq> ''X-Content-Sha256'' \<longrightarrow>
           Header_Get (Header r') k = Header_Get (Header r) k)) \<and>
   (\<forall>provider e. bodyHashError L s r = None \<and> KeyProvider s = Some provider \<and>
      PrivateRSAKey provider = Inl e \<longrightarrow>
      Sign L s r = (Err e, afterBodyHash L s r)) \<and>
   (\<forall>provider key e. bodyHashError L s r = None \<and> KeyProvider s = Some provider \<and>
      PrivateRSAKey provider = Inr key \<and>
      SignPKCS1v15 L key (Sum256 L (getSigningString L s (afterBodyHash L s r))) = Inl e \<longrightarrow>
      Sign L s r =
        (Err (Errorf (''can not compute signature while signing the request '' @ ErrorMsg e @ '': '')),
         afterBodyHash L s r)) \<and>
   (\<forall>provider key sig e. bodyHashError L s r = None \<and> KeyProvider s = Some provider \<and>
      PrivateRSAKey provider = Inr key \<and>
      SignPKCS1v15 L key (Sum256 L (getSigningString L s (afterBodyHash L s r))) = Inr sig \<and>
      KeyID provider = Inl e \<longrightarrow>
      Sign L s r = (Err e, afterBodyHash L s r))"
proof (intro conjI allI impI)
  fix e r' assume a: "Sign L s r = (Err e, r')"
  then have "fst (Sign L s r) \<noteq> Ok ()" by simp
  from Sign_not_Ok_request [OF this] a show r': "r' = afterBodyHash L s r" by simp
  have "CanonicalMIMEHeaderKey ''Authorization'' \<noteq> ''Content-Length''"
    and "CanonicalMIMEHeaderKey ''Authorization'' \<noteq> ''X-Content-Sha256''"
    by (simp_all add: canonical_Authorization)
  then show "Header_Get (Header r') ''Authorization'' = Header_Get (Header r) ''Authorization''"
    unfolding r' by (rule afterBodyHash_other_headers)
  fix k assume "CanonicalMIMEHeaderKey k \<noteq> ''Content-Length'' \<and>
           CanonicalMIMEHeaderKey k \<noteq> ''X-Content-Sha256''"
  then show "Header_Get (Header r') k = Header_Get (Header r) k"
    unfolding r' by (simp add: afterBodyHash_other_headers)
next
  fix provider e
  assume "bodyHashError L s r = None \<and> KeyProvider s = Some provider \<and>
      PrivateRSAKey provider = Inl e"
  then show "Sign L s r = (Err e, afterBodyHash L s r)"
    by (simp add: Sign_unfold computeSignature_def Let_def)
next
  fix provider key e
  assume "bodyHashError L s r = None \<and> KeyProvider s = Some provider \<and>
      PrivateRSAKey provider = Inr key \<and>
      SignPKCS1v15 L key (Sum256 L (getSigningString L s (afterBodyHash L s r))) = Inl e"
  then show "Sign L s r =
        (Err (Errorf (''can not compute signature while signing the request '' @ ErrorMsg e @ '': '')),
         afterBodyHash L s r)"
    by (simp add: Sign_unfold computeSignature_def Let_def)
next
  fix provider key sig e
  assume "bodyHashError L s r = None \<and> KeyProvider s = Some provider \<and>
      PrivateRSAKey provider = Inr key \<and>
      SignPKCS1v15 L key (Sum256 L (getSigningString L s (afterBodyHash L s r))) = Inr sig \<and>
      KeyID provider = Inl e"
  then show "Sign L s r = (Err e, afterBodyHash L s r)"
    by (simp add: Sign_unfold computeSignature_def Let_def)
qed

theorem Sign_failure_frame_witness:
  "Sign exampleLib
     (DefaultRequestSigner (Some (exampleProvider\<lparr>PrivateRSAKey := Inl (Errorf ''no key'')\<rparr>)))
     exampleRequest = (Err (Errorf ''no key''), exampleRequest) \<and>
   Sign exampleLib
     (DefaultRequestSigner (Some (exampleProvider\<lparr>KeyID := Inl (Errorf ''no key id'')\<rparr>)))
     exampleRequest = (Err (Errorf ''no key id''), exampleRequest) \<and>
   fst (Sign exampleLib (DefaultRequestSigner (Some (exampleProvider\<lparr>PrivateRSAKey := Inr 0\<rparr>)))
     exampleBodyRequest) =
     Err (Errorf ''can not compute signature while signing the request invalid key: '') \<and>
   Header_Get (Header (snd (Sign exampleLib
     (DefaultRequestSigner (Some (exampleProvider\<lparr>PrivateRSAKey := Inr 0\<rparr>)))
     exampleBodyRequest))) ''Authorization'' = [] \<and>
   Header_Get (Header (snd (Sign exampleLib
     (DefaultRequestSigner (Some (exampleProvider\<lparr>PrivateRSAKey := Inr 0\<rparr>)))
     exampleBodyRequest))) ''X-Content-SHA256'' = ''b2xsZWg=''"
proof -
  let ?s1 = "DefaultRequestSigner (Some (exampleProvider\<lparr>PrivateRSAKey := Inl (Errorf ''no key'')\<rparr>))"
  let ?s2 = "DefaultRequestSigner (Some (exampleProvider\<lparr>KeyID := Inl (Errorf ''no key id'')\<rparr>))"
  let ?s3 = "DefaultRequestSigner (Some (exampleProvider\<lparr>PrivateRSAKey := Inr 0\<rparr>))"
  have none: "bodyHashError exampleLib (DefaultRequestSigner p) exampleRequest = None"
    and same: "afterBodyHash exampleLib (DefaultRequestSigner p) exampleRequest = exampleRequest"
    for p :: "nat keyProvider option"
    by (simp_all add: bodyHashError_def afterBodyHash_def example_no_body_hash)
  have kp: "KeyProvider (DefaultRequestSigner p) = p" for p :: "nat keyProvider option"
    by (simp add: DefaultRequestSigner_def RequestSigner_def)
  have 1: "Sign exampleLib ?s1 exampleRequest = (Err (Errorf ''no key''), exampleRequest)"
    using Sign_failure_frame [of exampleLib ?s1 exampleRequest, THEN conjunct2, THEN conjunct1,
        rule_format, of "exampleProvider\<lparr>PrivateRSAKey := Inl (Errorf ''no key'')\<rparr>" "Errorf ''no key''"]
    by (simp add: none same kp)
  have sig: "SignPKCS1v15 exampleLib 7 d = Inr (''sig:'' @ d)" for d
    by (simp add: exampleLib_def)
  have 2: "Sign exampleLib ?s2 exampleRequest = (Err (Errorf ''no key id''), exampleRequest)"
    using Sign_failure_frame [of exampleLib ?s2 exampleRequest, THEN conjunct2, THEN conjunct2,
        THEN conjunct2, rule_format,
        of "exampleProvider\<lparr>KeyID := Inl (Errorf ''no key id'')\<rparr>" 7 _ "Errorf ''no key id''"]
    by (simp add: none same kp exampleProvider_def sig)
  have none3: "bodyHashError exampleLib ?s3 exampleBodyRequest = None"
    by (simp add: bodyHashError_def example_body_hash
        calculateHashOfBody_readable [OF example_bodyReadable])
  have bad: "SignPKCS1v15 exampleLib 0 d = Inl (Errorf ''invalid key'')" for d
    by (simp add: exampleLib_def)
  have 3: "Sign exampleLib ?s3 exampleBodyRequest =
      (Err (Errorf ''can not compute signature while signing the request invalid key: ''),
       afterBodyHash exampleLib ?s3 exampleBodyRequest)"
    using Sign_failure_frame [of exampleLib ?s3 exampleBodyRequest, THEN conjunct2, THEN conjunct2,
        THEN conjunct1, rule_format,
        of "exampleProvider\<lparr>PrivateRSAKey := Inr 0\<rparr>" 0 "Errorf ''invalid key''"]
    by (simp add: none3 kp bad)
  have auth: "Header_Get (Header exampleBodyRequest) ''Authorization'' = []"
    by (simp add: Header_Get_def canonical_Authorization exampleBodyRequest_def exampleRequest_def)
  have 4: "Header_Get (Header (afterBodyHash exampleLib ?s3 exampleBodyRequest)) ''Authorization'' = []"
    using Sign_failure_frame [of exampleLib ?s3 exampleBodyRequest, THEN conjunct1, rule_format,
        OF 3, THEN conjunct2, THEN conjunct1] auth
    by simp
  have 5: "Header_Get (Header (afterBodyHash exampleLib ?s3 exampleBodyRequest))
      ''X-Content-SHA256'' = ''b2xsZWg=''"
    by (simp add: afterBodyHash_def example_body_hash
        calculateHashOfBody_readable [OF example_bodyReadable] Header_Get_Set
        example_bodyBytes example_hash)
  from 1 2 3 4 5 show ?thesis by simp
qed

section \<open>The body-hash predicates\<close>



section \<open>Determinism of signing\<close>




text \<open>
  The hypothesis on the primitive is needed: a primitive that used the random source
  would give different signatures in two runs on the same request.
\<close>

lemma Sign_random_primitive:
  "Header_Get (Header (snd (Sign (libraryWithRandom (\<lambda>s. s) rev randomPrimitive ''aaa'')
       (DefaultRequestSigner (Some exampleProvider)) exampleRequest))) ''Authorization'' =
     authValue ''1'' ''date (request-target) host'' ''tenancy/user/fingerprint'' ''YWFh'' \<and>
   Header_Get (Header (snd (Sign (libraryWithRandom (\<lambda>s. s) rev randomPrimitive ''zzz'')
       (DefaultRequestSigner (Some exampleProvider)) exampleRequest))) ''Authorization'' =
     authValue ''1'' ''date (request-target) host'' ''tenancy/user/fingerprint'' ''enp6''"
proof -
  let ?s = "DefaultRequestSigner (Some exampleProvider)"
  have none: "bodyHashError L ?s exampleRequest = None"
    and same: "afterBodyHash L ?s exampleRequest = exampleRequest" for L :: "nat golib"
    by (simp_all add: bodyHashError_def afterBodyHash_def example_no_body_hash)
  have hs: "getSigningHeaders ?s exampleRequest = [''date'', ''(request-target)'', ''host'']"
    by (simp add: getSigningHeaders_def example_no_body_hash)
      (simp add: DefaultRequestSigner_def RequestSigner_def defaultGenericHeaders_def)
  have kp: "KeyProvider ?s = Some exampleProvider"
    by (simp add: DefaultRequestSigner_def RequestSigner_def)
  have enc: "EncodeToString ''aaa'' = ''YWFh''" "EncodeToString ''zzz'' = ''enp6''"
    by (simp_all add: byte_def encodeStd_def Let_def)
  have sig: "SignPKCS1v15 (libraryWithRandom (\<lambda>s. s) rev randomPrimitive random) k d = Inr random"
    for random k d
    by (simp add: libraryWithRandom_def randomPrimitive_def)
  have prov: "PrivateRSAKey exampleProvider = Inr 7"
    "KeyID exampleProvider = Inr ''tenancy/user/fingerprint''"
    by (simp_all add: exampleProvider_def)
  have "Sign (libraryWithRandom (\<lambda>s. s) rev randomPrimitive random) ?s exampleRequest =
    (Ok (), exampleRequest\<lparr>Header := Header_Set (Header exampleRequest) ''Authorization''
       (authValue ''1'' ''date (request-target) host'' ''tenancy/user/fingerprint''
         (EncodeToString random))\<rparr>)" for random
    by (simp add: Sign_unfold none same computeSignature_def kp hs signerVersion_def
        sig prov Let_def del: EncodeToString.simps)
  then show ?thesis by (simp add: Header_Get_Set enc del: EncodeToString.simps)
qed

section \<open>The expiration time\<close>

text \<open>
  Claim C9. With no key provider bound, \<open>ExpirationTime\<close> returns a time strictly before
  the current time (one second earlier); with a provider bound it returns what the
  provider's \<open>ExpirationTime\<close> returns. It has no error result.
\<close>

theorem ExpirationTime_nil_or_delegates:
  "(KeyProvider signer = None \<longrightarrow>
      ExpirationTime now signer < now \<and> ExpirationTime now signer = now - Second) \<and>
   (\<forall>provider. KeyProvider signer = Some provider \<longrightarrow>
      ExpirationTime now signer = kpExpirationTime provider)"
  by (simp add: ExpirationTime_def Second_def)

theorem ExpirationTime_nil_or_delegates_witness:
  "ExpirationTime 5000000000 (DefaultRequestSigner (None :: nat keyProvider option)) = 4000000000 \<and>
   ExpirationTime 5000000000 (DefaultRequestSigner (Some exampleProvider)) = 42"
  using ExpirationTime_nil_or_delegates [of "DefaultRequestSigner (None :: nat keyProvider option)" 5000000000]
    ExpirationTime_nil_or_delegates [of "DefaultRequestSigner (Some exampleProvider)" 5000000000]
  by (simp add: DefaultRequestSigner_def RequestSigner_def Second_def exampleProvider_def)

section \<open>Signing without a key provider\<close>

text \<open>
  Claim C10. With a nil \<open>KeyProvider\<close>, \<open>computeSignature\<close> panics on every request, and
  \<open>Sign\<close> never succeeds and never returns an error for an unavailable key: it panics,
  unless the body-hash step has already returned its own error before any use of the
  provider. \<open>ExpirationTime\<close> handles the nil provider and returns a time. With a
  provider bound, \<open>Sign\<close> does not panic.
\<close>

theorem Sign_nil_KeyProvider:
  "(KeyProvider s = None \<longrightarrow>
      computeSignature L s r = Panic \<and>
      Sign L s r =
        (case bodyHashError L s r of
           None \<Rightarrow> (Panic, afterBodyHash L s r)
         | Some e \<Rightarrow> (Err e, afterBodyHash L s r)) \<and>
      fst (Sign L s r) \<noteq> Ok () \<and>
      (\<forall>e. fst (Sign L s r) = Err e \<longrightarrow> bodyHashError L s r = Some e) \<and>
      ExpirationTime now s = now - Second) \<and>
   (\<forall>provider. KeyProvider s = Some provider \<longrightarrow>
      computeSignature L s r \<noteq> Panic \<and> fst (Sign L s r) \<noteq> Panic)"
proof (intro conjI impI allI)
  fix provider assume p: "KeyProvider s = Some provider"
  then show "computeSignature L s r \<noteq> Panic" by (rule computeSignature_bound)
  from p computeSignature_bound [OF p, of L "afterBodyHash L s r"]
  show "fst (Sign L s r) \<noteq> Panic"
    by (simp add: Sign_unfold Let_def split: option.splits result.splits sum.splits)
next
  assume n: "KeyProvider s = None"
  then show "computeSignature L s r = Panic" by (rule computeSignature_nil)
  from n show s: "Sign L s r =
        (case bodyHashError L s r of
           None \<Rightarrow> (Panic, afterBodyHash L s r)
         | Some e \<Rightarrow> (Err e, afterBodyHash L s r))"
    by (simp add: Sign_unfold Let_def computeSignature_nil split: option.splits)
  show "fst (Sign L s r) \<noteq> Ok ()"
    by (simp add: s split: option.splits)
  show "ExpirationTime now s = now - Second"
    by (simp add: ExpirationTime_def n)
  fix e assume "fst (Sign L s r) = Err e"
  then show "bodyHashError L s r = Some e"
    by (simp add: s split: option.splits)
qed

theorem Sign_nil_KeyProvider_witness:
  "Sign exampleLib (DefaultRequestSigner None) exampleRequest = (Panic, exampleRequest) \<and>
   fst (Sign exampleLib (DefaultRequestSigner None) exampleBodyRequest) = Panic \<and>
   fst (Sign exampleLib (DefaultRequestSigner None) exampleUnreadableRequest) =
     Err (Errorf ''can not read body of request while calculating body hash: unexpected EOF'') \<and>
   ExpirationTime 5000000000 (DefaultRequestSigner (None :: nat keyProvider option)) = 4000000000 \<and>
   fst (Sign exampleLib (DefaultRequestSigner (Some exampleProvider)) exampleRequest) \<noteq> Panic"
proof -
  let ?s = "DefaultRequestSigner (None :: nat keyProvider option)"
  have kp: "KeyProvider (DefaultRequestSigner p) = p" for p :: "nat keyProvider option"
    by (simp add: DefaultRequestSigner_def RequestSigner_def)
  have none: "bodyHashError exampleLib ?s exampleRequest = None"
    and same: "afterBodyHash exampleLib ?s exampleRequest = exampleRequest"
    by (simp_all add: bodyHashError_def afterBodyHash_def example_no_body_hash)
  have none2: "bodyHashError exampleLib ?s exampleBodyRequest = None"
    by (simp add: bodyHashError_def example_body_hash
        calculateHashOfBody_readable [OF example_bodyReadable])
  have p3: "ShouldHashBody ?s exampleUnreadableRequest"
    by (simp add: DefaultRequestSigner_def RequestSigner_def defaultBodyHashPredicate_def
        exampleUnreadableRequest_def)
  have some3: "bodyHashError exampleLib ?s exampleUnreadableRequest =
      Some (Errorf ''can not read body of request while calculating body hash: unexpected EOF'')"
    by (simp add: bodyHashError_def p3)
      (simp add: calculateHashOfBody_def GetBodyHash_def exampleUnreadableRequest_def)
  note T = Sign_nil_KeyProvider [of ?s exampleLib _ 5000000000, THEN conjunct1, rule_format, OF kp]
  note B = T [THEN conjunct2, THEN conjunct1]
  have 1: "Sign exampleLib ?s exampleRequest = (Panic, exampleRequest)"
    using B [of exampleRequest] by (simp add: none same)
  have 2: "fst (Sign exampleLib ?s exampleBodyRequest) = Panic"
    using B [of exampleBodyRequest] by (simp add: none2)
  have 3: "fst (Sign exampleLib ?s exampleUnreadableRequest) =
     Err (Errorf ''can not read body of request while calculating body hash: unexpected EOF'')"
    using B [of exampleUnreadableRequest] by (simp add: some3)
  have 4: "ExpirationTime 5000000000 ?s = 4000000000"
    using T [of exampleRequest, THEN conjunct2, THEN conjunct2, THEN conjunct2, THEN conjunct2]
    by (simp add: Second_def)
  have 5: "fst (Sign exampleLib (DefaultRequestSigner (Some exampleProvider)) exampleRequest) \<noteq> Panic"
    using Sign_nil_KeyProvider [of "DefaultRequestSigner (Some exampleProvider)" exampleLib
        exampleRequest 0, THEN conjunct2, rule_format, OF kp, THEN conjunct2]
    by simp
  from 1 2 3 4 5 show ?thesis by simp
qed

end
